theory Spec2Isabelle
  imports Main
begin

unbundle bit_operations_syntax

section \<open>myshell.c: constants and C library helpers\<close>

text \<open>
  The shell keeps two static character arrays, \<open>buffer\<close> and \<open>filename\<close>, each of
  256 bytes. The remaining constants come from the system headers (Linux values).
\<close>

definition BUFFER_SIZE :: nat where "BUFFER_SIZE = 256"
definition MAX_PATH_LENGTH :: nat where "MAX_PATH_LENGTH = 256"
definition MAX_FILENAME_LENGTH :: nat where "MAX_FILENAME_LENGTH = 256"
definition PATH_MAX :: nat where "PATH_MAX = 4096"
definition EXIT_SUCCESS :: int where "EXIT_SUCCESS = 0"
definition EOF :: int where "EOF = - 1"

definition NUL :: char where "NUL = CHR 0x00"
definition NL :: string where "NL = [CHR 0x0A]"
definition TAB :: string where "TAB = [CHR 0x09]"
definition ESC :: string where "ESC = [CHR 0x1B]"
definition QUOTE :: string where "QUOTE = [CHR 0x27]"

text \<open>\<open>isspace\<close> in the C locale: space, and the control characters 9 to 13.\<close>

definition isspace :: "char \<Rightarrow> bool" where
  "isspace c = (c = CHR 0x20 \<or> c = CHR 0x09 \<or> c = CHR 0x0A \<or> c = CHR 0x0B
                \<or> c = CHR 0x0C \<or> c = CHR 0x0D)"

text \<open>
  A character array holds a C string: the characters before the first \<open>NUL\<close>.
  \<open>strnlen\<close> counts them, looking at no more than \<open>n\<close> bytes.
\<close>

definition c_str :: "char list \<Rightarrow> string" where
  "c_str b = takeWhile (\<lambda>c. c \<noteq> NUL) b"

definition strnlen :: "char list \<Rightarrow> nat \<Rightarrow> nat" where
  "strnlen b n = length (c_str (take n b))"

text \<open>
  What the C standard leaves undefined is an outcome of its own in the model: an array
  access outside the array (with the index used), a dereferenced null pointer, a string
  handed to the system without its terminator.
\<close>

datatype ub = Out_of_bounds int | Null_dereference | Unterminated_string

subsection \<open>strip_trailing_whitespace\<close>

text \<open>
  \<^verbatim>\<open>
  int i = strnlen(string, BUFFER_SIZE) - 1;
  while(isspace(string[i]))
    string[i--] = 0;
  \<close>
  The array is a list of bytes; the index is a C \<open>int\<close> and may become negative, so every
  access is checked against the bounds of the array and an access outside is reported
  with its index.
\<close>

function strip_loop :: "char list \<Rightarrow> int \<Rightarrow> ub + char list" where
  "strip_loop string i =
     (if i < 0 \<or> int (length string) \<le> i then Inl (Out_of_bounds i)
      else if isspace (string ! nat i) then strip_loop (string[nat i := NUL]) (i - 1)
      else Inr string)"
  by pat_completeness auto
termination
  by (relation "measure (\<lambda>(string, i). nat (i + 1))") auto

definition strip_trailing_whitespace :: "char list \<Rightarrow> ub + char list" where
  "strip_trailing_whitespace string = strip_loop string (int (strnlen string BUFFER_SIZE) - 1)"

subsection \<open>sscanf with literal characters, white space and one \<open>%s\<close>\<close>

text \<open>
  Every format string of the program is a run of ordinary characters, one blank and a
  final \<open>%s\<close>. An ordinary character must match the next input character; a blank skips
  any amount of white space, also none; \<open>%s\<close> skips white space and then takes the
  characters up to the next white space. The result is the number of assignments, or
  \<open>EOF\<close> when the input ends before the first conversion, with the string assigned.
\<close>

datatype directive = Lit char | White | Conv_s

fun parse_format :: "string \<Rightarrow> directive list" where
  "parse_format [] = []"
| "parse_format [c] = (if isspace c then [White] else [Lit c])"
| "parse_format (c # d # cs) =
     (if c = CHR ''%'' \<and> d = CHR ''s'' then Conv_s # parse_format cs
      else if isspace c then White # parse_format (d # cs)
      else Lit c # parse_format (d # cs))"

fun scan :: "directive list \<Rightarrow> string \<Rightarrow> int \<times> string option" where
  "scan [] inp = (0, None)"
| "scan (White # ds) inp = scan ds (dropWhile isspace inp)"
| "scan (Lit c # ds) inp =
     (case inp of [] \<Rightarrow> (EOF, None)
      | x # xs \<Rightarrow> if x = c then scan ds xs else (0, None))"
| "scan (Conv_s # ds) inp =
     (case dropWhile isspace inp of [] \<Rightarrow> (EOF, None)
      | x # xs \<Rightarrow> (1, Some (takeWhile (\<lambda>c. \<not> isspace c) (x # xs))))"

definition sscanf :: "string \<Rightarrow> string \<Rightarrow> int \<times> string option" where
  "sscanf str format = scan (parse_format format) str"


text \<open>
  \<open>strncmp\<close> is only ever tested against zero: it is zero exactly when the two strings
  agree on their first \<open>n\<close> characters.
\<close>

definition strncmp :: "string \<Rightarrow> string \<Rightarrow> nat \<Rightarrow> int" where
  "strncmp a b n = (if take n a = take n b then 0 else 1)"

text \<open>
  \<open>strncpy\<close> of a source with \<open>n\<close> or more characters leaves the destination without
  a terminator; the model records that instead of the bytes that would follow.
\<close>

definition strncpy :: "string \<Rightarrow> nat \<Rightarrow> ub + string" where
  "strncpy src n = (if n \<le> length src then Inl Unterminated_string else Inr src)"

text \<open>
  \<open>fwrite(ptr, size, nmemb, stream)\<close> reads \<open>size\<close> times \<open>nmemb\<close> bytes starting at \<open>ptr\<close>. The
  object behind \<open>ptr\<close> has \<open>objsize\<close> bytes; a request for more reads past its end.
\<close>

definition fwrite :: "char list \<Rightarrow> nat \<Rightarrow> nat \<Rightarrow> nat \<Rightarrow> ub + char list" where
  "fwrite ptr objsize sz nmemb =
     (if sz * nmemb \<le> objsize then Inr (take (sz * nmemb) ptr)
      else Inl (Out_of_bounds (int objsize)))"

text \<open>\<open>fgets(buffer, BUFFER_SIZE, stdin)\<close> stores at most 255 characters and a terminator.\<close>

definition fgets :: "string \<Rightarrow> char list \<Rightarrow> char list" where
  "fgets line b =
     (let l = take (BUFFER_SIZE - 1) line in l @ NUL # drop (Suc (length l)) b)"

text \<open>Decimal output of \<open>%ld\<close> and \<open>%jd\<close>.\<close>

function dec_nat :: "nat \<Rightarrow> string" where
  "dec_nat n =
     (if n < 10 then [char_of (48 + n)]
      else dec_nat (n div 10) @ [char_of (48 + n mod 10)])"
  by pat_completeness auto
termination
  by (relation "measure id") auto

definition dec :: "int \<Rightarrow> string" where
  "dec i = (if i < 0 then CHR ''-'' # dec_nat (nat (- i)) else dec_nat (nat i))"

subsection \<open>File modes\<close>

definition S_IFMT :: nat where "S_IFMT = 0xF000"
definition S_IFSOCK :: nat where "S_IFSOCK = 0xC000"
definition S_IFLNK :: nat where "S_IFLNK = 0xA000"
definition S_IFREG :: nat where "S_IFREG = 0x8000"
definition S_IFBLK :: nat where "S_IFBLK = 0x6000"
definition S_IFDIR :: nat where "S_IFDIR = 0x4000"
definition S_IFCHR :: nat where "S_IFCHR = 0x2000"
definition S_IFIFO :: nat where "S_IFIFO = 0x1000"

text \<open>\<open>S_IRWXU | S_IRWXG | S_IROTH | S_IXOTH\<close>, that is octal 775.\<close>

definition MKDIR_MODE :: nat where "MKDIR_MODE = 0x1FD"

definition file_or_dir :: "nat \<Rightarrow> string" where
  "file_or_dir mode = (if mode AND S_IFMT = S_IFDIR then ''DIR'' else ''FILE'')"

definition ftype_string :: "nat \<Rightarrow> string" where
  "ftype_string mode =
     (let m = mode AND S_IFMT in
      if m = S_IFREG then ''regular''
      else if m = S_IFDIR then ''directory''
      else if m = S_IFLNK then ''symlink''
      else if m = S_IFCHR then ''char-device''
      else if m = S_IFBLK then ''block-device''
      else if m = S_IFIFO then ''fifo''
      else if m = S_IFSOCK then ''socket''
      else ''unknown'')"

section \<open>The operating system as a parameter\<close>

text \<open>
  The system calls and library functions the shell uses are not code of the program. They
  are taken as a record of functions over a state \<open>'w\<close> of the world outside the process,
  about which nothing is assumed. A call that fails returns \<open>Inl\<close> with the error, which
  the process finds in \<open>errno\<close>; error numbers are positive.
\<close>

datatype os_error =
  EPERM | ENOENT | EIO | EBADF | ENOMEM | EACCES | EEXIST | ENOTDIR | EISDIR | EINVAL
  | EMFILE | ERANGE | ENAMETOOLONG | ENOTEMPTY | ELOOP

fun errno_code :: "os_error \<Rightarrow> nat" where
  "errno_code EPERM = 1"
| "errno_code ENOENT = 2"
| "errno_code EIO = 5"
| "errno_code EBADF = 9"
| "errno_code ENOMEM = 12"
| "errno_code EACCES = 13"
| "errno_code EEXIST = 17"
| "errno_code ENOTDIR = 20"
| "errno_code EISDIR = 21"
| "errno_code EINVAL = 22"
| "errno_code EMFILE = 24"
| "errno_code ERANGE = 34"
| "errno_code ENAMETOOLONG = 36"
| "errno_code ENOTEMPTY = 39"
| "errno_code ELOOP = 40"

record stat =
  st_mode :: nat
  st_size :: int
  st_blksize :: int
  st_blocks :: int
  st_nlink :: int
  st_ino :: int
  st_mtime :: int

text \<open>
  \<open>os_getpwuid\<close> stands for \<open>getpwuid(getuid())\<close> and gives the \<open>pw_dir\<close> of the entry
  found, or \<open>None\<close> for a null pointer. \<open>os_readdir\<close> gives \<open>Inr (Some name)\<close> for an
  entry, \<open>Inr None\<close> at the end of the stream (which leaves \<open>errno\<close> alone) and \<open>Inl e\<close>
  for a failed read. \<open>os_read\<close> gives the bytes read, none at end of file.
\<close>

record 'w os =
  os_getpwuid :: "'w \<Rightarrow> string option \<times> 'w"
  os_chdir :: "string \<Rightarrow> 'w \<Rightarrow> (os_error + unit) \<times> 'w"
  os_getcwd :: "nat \<Rightarrow> 'w \<Rightarrow> (os_error + string) \<times> 'w"
  os_opendir :: "string \<Rightarrow> 'w \<Rightarrow> (os_error + nat) \<times> 'w"
  os_readdir :: "nat \<Rightarrow> 'w \<Rightarrow> (os_error + string option) \<times> 'w"
  os_closedir :: "nat \<Rightarrow> 'w \<Rightarrow> (os_error + unit) \<times> 'w"
  os_lstat :: "string \<Rightarrow> 'w \<Rightarrow> (os_error + stat) \<times> 'w"
  os_stat :: "string \<Rightarrow> 'w \<Rightarrow> (os_error + stat) \<times> 'w"
  os_open :: "string \<Rightarrow> 'w \<Rightarrow> (os_error + int) \<times> 'w"
  os_read :: "int \<Rightarrow> nat \<Rightarrow> 'w \<Rightarrow> (os_error + char list) \<times> 'w"
  os_close :: "int \<Rightarrow> 'w \<Rightarrow> (os_error + unit) \<times> 'w"
  os_mkdir :: "string \<Rightarrow> nat \<Rightarrow> 'w \<Rightarrow> (os_error + unit) \<times> 'w"
  os_rmdir :: "string \<Rightarrow> 'w \<Rightarrow> (os_error + unit) \<times> 'w"
  os_unlink :: "string \<Rightarrow> 'w \<Rightarrow> (os_error + unit) \<times> 'w"
  os_strerror :: "nat \<Rightarrow> string"
  os_ctime :: "int \<Rightarrow> string"

section \<open>The process\<close>

text \<open>
  The state of the process: the world it runs in, \<open>errno\<close>, the two static arrays
  (\<open>buffer\<close> as its 256 bytes, \<open>filename\<close> as the C string it holds), what has been
  written to the two output streams, and the system calls issued so far, in order.
  \<open>before_buffer\<close> holds the bytes of the process image that lie before \<open>buffer\<close>, the
  nearest first: \<open>strip_trailing_whitespace\<close> reaches them on a blank line.
\<close>

datatype syscall =
  Getpwuid | Chdir string | Getcwd nat
  | Opendir string | Readdir nat | Closedir nat | Lstat string | Stat string
  | Open string | Read int nat | Close int
  | Mkdir string nat | Rmdir string | Unlink string

record 'w proc =
  world :: 'w
  errno :: nat
  buffer :: "char list"
  filename :: string
  stdout :: string
  stderr :: string
  trace :: "syscall list"
  before_buffer :: "char list"

text \<open>
  A function of the program either returns, with a value or, where control reaches the
  closing brace of a non-void function, without one (\<open>Ret None\<close>), or runs into
  undefined behaviour.
\<close>

datatype 'w outcome = Ret "int option" "'w proc" | Undef ub "'w proc"

definition sys ::
  "('w \<Rightarrow> (os_error + 'a) \<times> 'w) \<Rightarrow> syscall \<Rightarrow> 'w proc \<Rightarrow> (os_error + 'a) \<times> 'w proc" where
  "sys f c s =
     (case f (world s) of (r, w) \<Rightarrow>
        (r, s\<lparr>world := w, trace := trace s @ [c],
              errno := (case r of Inl e \<Rightarrow> errno_code e | Inr _ \<Rightarrow> errno s)\<rparr>))"

definition fprintf_stdout :: "string \<Rightarrow> 'w proc \<Rightarrow> 'w proc" where
  "fprintf_stdout msg s = s\<lparr>stdout := stdout s @ msg\<rparr>"

definition fprintf_stderr :: "string \<Rightarrow> 'w proc \<Rightarrow> 'w proc" where
  "fprintf_stderr msg s = s\<lparr>stderr := stderr s @ msg\<rparr>"

text \<open>\<open>sscanf(str, format, filename)\<close>: an assignment lands in the static \<open>filename\<close>.\<close>

definition sscanf_filename :: "string \<Rightarrow> string \<Rightarrow> 'w proc \<Rightarrow> int \<times> 'w proc" where
  "sscanf_filename str format s =
     (case sscanf str format of
        (n, None) \<Rightarrow> (n, s)
      | (n, Some a) \<Rightarrow> (n, s\<lparr>filename := a\<rparr>))"


section \<open>The command handlers\<close>

subsection \<open>do_cd\<close>

text \<open>
  The second half of \<open>do_cd\<close>: \<open>chdir\<close>, and the report when it fails.
\<close>

definition do_cd_chdir :: "'w os \<Rightarrow> string \<Rightarrow> 'w proc \<Rightarrow> 'w outcome" where
  "do_cd_chdir k dirname s =
     (case sys (os_chdir k dirname) (Chdir dirname) s of
        (Inl e, s1) \<Rightarrow>
          Ret (Some (- 1)) (fprintf_stderr (''cd: '' @ os_strerror k (errno s1) @ NL) s1)
      | (Inr _, s1) \<Rightarrow> Ret (Some 0) s1)"

text \<open>
  The only caller passes the static \<open>filename\<close> as \<open>dirname\<close>, so the \<open>strncpy\<close> of the
  home directory lands there. The password entry is looked up first and dereferenced
  without a check when \<open>dirname\<close> is empty.
\<close>

definition do_cd :: "'w os \<Rightarrow> string \<Rightarrow> 'w proc \<Rightarrow> 'w outcome" where
  "do_cd k dirname s =
     (case os_getpwuid k (world s) of (p, w) \<Rightarrow>
        let s1 = s\<lparr>world := w, trace := trace s @ [Getpwuid]\<rparr> in
        if strnlen dirname MAX_PATH_LENGTH = 0 then
          (case p of
             None \<Rightarrow> Undef Null_dereference s1
           | Some pw_dir \<Rightarrow>
               (case strncpy pw_dir MAX_PATH_LENGTH of
                  Inl u \<Rightarrow> Undef u s1
                | Inr home \<Rightarrow> do_cd_chdir k home (s1\<lparr>filename := home\<rparr>)))
        else do_cd_chdir k dirname s1)"

subsection \<open>do_ls\<close>

text \<open>
  The \<open>while ((entry = readdir(d)) != NULL)\<close> loop. It ends when \<open>readdir\<close> gives a null
  pointer, at the end of the stream or on an error; both \<open>continue\<close> statements and the
  end of the body lead back to \<open>readdir\<close>. A directory stream need not end, so the loop
  is a partial function: \<open>None\<close> is a loop that runs forever.
\<close>

partial_function (option) ls_loop :: "'w os \<Rightarrow> string \<Rightarrow> nat \<Rightarrow> 'w proc \<Rightarrow> 'w proc option" where
  "ls_loop k dir d s =
     (case sys (os_readdir k d) (Readdir d) s of
        (Inl e, s1) \<Rightarrow> Some s1
      | (Inr None, s1) \<Rightarrow> Some s1
      | (Inr (Some d_name), s1) \<Rightarrow>
          if PATH_MAX \<le> length dir + 1 + length d_name then
            ls_loop k dir d
              (fprintf_stderr (''path too long: '' @ dir @ ''/'' @ d_name @ NL) s1)
          else
            (case sys (os_lstat k (dir @ ''/'' @ d_name)) (Lstat (dir @ ''/'' @ d_name)) s1 of
               (Inl e, s2) \<Rightarrow>
                 ls_loop k dir d
                   (fprintf_stderr
                      (''lstat failed for '' @ QUOTE @ dir @ ''/'' @ d_name @ QUOTE @ '': ''
                         @ os_strerror k (errno s2) @ NL) s2)
             | (Inr st, s2) \<Rightarrow>
                 ls_loop k dir d
                   (fprintf_stdout
                      (d_name @ TAB @ ''['' @ file_or_dir (st_mode st) @ '']'' @ TAB
                         @ ''(type='' @ ftype_string (st_mode st) @ '')'' @ TAB
                         @ ''size='' @ dec (st_size st) @ '' bytes '' @ NL) s2)))"

definition do_ls :: "'w os \<Rightarrow> string \<Rightarrow> 'w proc \<Rightarrow> 'w outcome option" where
  "do_ls k dirname s =
     (let dir = (if dirname \<noteq> [] then dirname else ''.'') in
      case sys (os_opendir k dir) (Opendir dir) s of
        (Inl e, s1) \<Rightarrow>
          Some (Ret (Some (- 1))
            (fprintf_stderr
               (''Could not open directory '' @ dirname @ '' '' @ os_strerror k (errno s1) @ NL)
               s1))
      | (Inr d, s1) \<Rightarrow>
          (case ls_loop k dir d (s1\<lparr>errno := 0\<rparr>) of
             None \<Rightarrow> None
           | Some s2 \<Rightarrow>
               if errno s2 \<noteq> 0 then
                 Some (Ret (Some (- 1))
                   (snd (sys (os_closedir k d) (Closedir d)
                      (fprintf_stderr
                         (''Error reading directory '' @ dir @ '' :  ''
                            @ os_strerror k (errno s2) @ NL) s2))))
               else
                 (case sys (os_closedir k d) (Closedir d) s2 of
                    (Inl e, s3) \<Rightarrow>
                      Some (Ret (Some (- 1))
                        (fprintf_stderr
                           (''error closing directory '' @ dir @ '' :  ''
                              @ os_strerror k (errno s3) @ NL) s3))
                  | (Inr _, s3) \<Rightarrow> Some (Ret (Some 0) s3))))"

subsection \<open>do_cat\<close>

text \<open>
  What follows the read loop: the file is closed, a failure is reported (the statement
  \<open>exit-1;\<close> that follows the report is an expression without effect), the descriptor is
  closed a second time, and control reaches the closing brace without a \<open>return\<close>.
\<close>

definition do_cat_close :: "'w os \<Rightarrow> string \<Rightarrow> int \<Rightarrow> 'w proc \<Rightarrow> 'w outcome" where
  "do_cat_close k fname sourcefd s =
     (case sys (os_close k sourcefd) (Close sourcefd) s of (r, s1) \<Rightarrow>
        let s2 = (if isl r
                  then fprintf_stderr
                         (''Error closing source file '' @ fname @ '': ''
                            @ os_strerror k (errno s1) @ NL) s1
                  else s1)
        in Ret None (snd (sys (os_close k sourcefd) (Close sourcefd) s2)))"

text \<open>
  The \<open>while (exitLoop == 1)\<close> loop. \<open>read\<close> fills the front of the static \<open>buffer\<close>;
  \<open>countr\<close> is \<open>-1\<close> for a failed read. A file need not end, so the loop is a partial
  function. The \<open>fwrite\<close> asks for \<open>BUFFER_SIZE\<close> items of \<open>BUFFER_SIZE - 1\<close> bytes.
\<close>

partial_function (option) do_cat_loop ::
  "'w os \<Rightarrow> string \<Rightarrow> int \<Rightarrow> 'w proc \<Rightarrow> 'w outcome option" where
  "do_cat_loop k fname sourcefd s =
     (case sys (os_read k sourcefd BUFFER_SIZE) (Read sourcefd BUFFER_SIZE) s of
        (Inl e, s1) \<Rightarrow>
          Some (Ret (Some (- 1))
            (fprintf_stderr
               (''Error reading data from '' @ fname @ '': '' @ os_strerror k (errno s1) @ NL)
               s1))
      | (Inr bytes, s1) \<Rightarrow>
          let got = take BUFFER_SIZE bytes;
              s2 = s1\<lparr>buffer := got @ drop (length got) (buffer s1)\<rparr>
          in if length got = 0 then Some (do_cat_close k fname sourcefd (fprintf_stdout NL s2))
             else
               (case fwrite (buffer s2) BUFFER_SIZE BUFFER_SIZE (BUFFER_SIZE - 1) of
                  Inl u \<Rightarrow> Some (Undef u s2)
                | Inr data \<Rightarrow> do_cat_loop k fname sourcefd (fprintf_stdout data s2)))"

text \<open>\<open>sourcefd\<close> is the value \<open>open\<close> returned, \<open>-1\<close> when it failed.\<close>

definition do_cat :: "'w os \<Rightarrow> string \<Rightarrow> 'w proc \<Rightarrow> 'w outcome option" where
  "do_cat k fname s =
     (case sys (os_open k fname) (Open fname) s of (r, s1) \<Rightarrow>
        let sourcefd = (case r of Inl e \<Rightarrow> - 1 | Inr fd \<Rightarrow> fd) in
        if sourcefd < 0 then
          Some (Ret (Some (- 1))
            (snd (sys (os_close k sourcefd) (Close sourcefd)
               (fprintf_stderr
                  (''Unable to open '' @ fname @ '': '' @ os_strerror k (errno s1) @ NL) s1))))
        else do_cat_loop k fname sourcefd s1)"

subsection \<open>do_mkdir, do_rmdir, do_pwd, do_rm, do_stat\<close>

definition do_mkdir :: "'w os \<Rightarrow> string \<Rightarrow> 'w proc \<Rightarrow> 'w outcome" where
  "do_mkdir k dirname s =
     (case sys (os_mkdir k dirname MKDIR_MODE) (Mkdir dirname MKDIR_MODE) s of
        (Inl e, s1) \<Rightarrow>
          Ret (Some (- 1))
            (fprintf_stderr
               (''Error creating directory '' @ dirname @ '' '' @ os_strerror k (errno s1) @ NL)
               s1)
      | (Inr _, s1) \<Rightarrow> Ret (Some 0) s1)"

definition do_rmdir :: "'w os \<Rightarrow> string \<Rightarrow> 'w proc \<Rightarrow> 'w outcome" where
  "do_rmdir k dirname s =
     (case sys (os_rmdir k dirname) (Rmdir dirname) s of
        (Inl e, s1) \<Rightarrow>
          Ret (Some (- 1))
            (fprintf_stderr
               (''Error removing directory '' @ dirname @ '' '' @ os_strerror k (errno s1) @ NL)
               s1)
      | (Inr _, s1) \<Rightarrow> Ret (Some 0) s1)"

definition do_pwd :: "'w os \<Rightarrow> 'w proc \<Rightarrow> 'w outcome" where
  "do_pwd k s =
     (case sys (os_getcwd k MAX_PATH_LENGTH) (Getcwd MAX_PATH_LENGTH) s of
        (Inl e, s1) \<Rightarrow>
          Ret (Some (- 1))
            (fprintf_stderr
               (''Error outputting current directory: '' @ os_strerror k (errno s1) @ NL) s1)
      | (Inr current_dir, s1) \<Rightarrow>
          Ret (Some 0)
            (fprintf_stdout NL
               (fprintf_stdout (''myshell:'' @ ESC @ ''[32;1m'' @ current_dir @ ESC @ ''[0m> '')
                  s1)))"

definition do_rm :: "'w os \<Rightarrow> string \<Rightarrow> 'w proc \<Rightarrow> 'w outcome" where
  "do_rm k fname s =
     (case sys (os_unlink k fname) (Unlink fname) s of
        (Inl e, s1) \<Rightarrow>
          Ret (Some (- 1))
            (fprintf_stderr
               (''Error removing file '' @ fname @ '' '' @ os_strerror k (errno s1) @ NL) s1)
      | (Inr _, s1) \<Rightarrow> Ret (Some 0) s1)"

text \<open>
  \<open>stat\<close> is called twice; the first result is dropped. The branch that prints the
  metadata ends at the closing brace without a \<open>return\<close>.
\<close>

definition do_stat :: "'w os \<Rightarrow> string \<Rightarrow> 'w proc \<Rightarrow> 'w outcome" where
  "do_stat k fname s =
     (case sys (os_stat k fname) (Stat fname) (snd (sys (os_stat k fname) (Stat fname) s)) of
        (Inl e, s1) \<Rightarrow>
          Ret (Some (- 1))
            (fprintf_stdout
               (''Error outputting stat: '' @ fname @ '', '' @ os_strerror k (errno s1) @ NL) s1)
      | (Inr sb, s1) \<Rightarrow>
          Ret None
            (fprintf_stdout (''Time Modified: '' @ os_ctime k (st_mtime sb) @ NL)
            (fprintf_stdout (''Inode: '' @ dec (st_ino sb) @ NL)
            (fprintf_stdout (''Links: '' @ dec (st_nlink sb) @ NL)
            (fprintf_stdout (''Blocks: '' @ dec (st_blocks sb) @ TAB)
            (fprintf_stdout (''Size: '' @ dec (st_blksize sb) @ '' bytes'' @ TAB)
            (fprintf_stdout (''File: '' @ fname @ NL) s1)))))))"

section \<open>execute_command\<close>

text \<open>
  The chain of \<open>sscanf\<close> and \<open>strncmp\<close> tests, in the order of the source. The argument
  is the C string in \<open>buffer\<close>.
\<close>

definition execute_command :: "'w os \<Rightarrow> string \<Rightarrow> 'w proc \<Rightarrow> 'w outcome option" where
  "execute_command k buf s =
     (case sscanf_filename buf ''cat %s'' s of (n1, s1) \<Rightarrow>
      if n1 = 1 then do_cat k (filename s1) s1 else
     (case sscanf_filename buf ''stat %s'' s1 of (n2, s2) \<Rightarrow>
      if n2 = 1 then Some (do_stat k (filename s2) s2) else
     (case sscanf_filename buf ''mkdir %s'' s2 of (n3, s3) \<Rightarrow>
      if n3 = 1 then Some (do_mkdir k (filename s3) s3) else
     (case sscanf_filename buf ''rmdir %s'' s3 of (n4, s4) \<Rightarrow>
      if n4 = 1 then Some (do_rmdir k (filename s4) s4) else
     (case sscanf_filename buf ''rm %s'' s4 of (n5, s5) \<Rightarrow>
      if n5 = 1 then Some (do_rm k (filename s5) s5) else
     (case sscanf_filename buf ''ls %s'' s5 of (n6, s6) \<Rightarrow>
      if n6 = 1 \<or> strncmp buf ''ls'' BUFFER_SIZE = 0 then
        (let s7 = (if strnlen (filename s6) BUFFER_SIZE = 0 then s6\<lparr>filename := ''.''\<rparr>
                   else s6)
         in do_ls k (filename s7) s7)
      else if strncmp buf ''pwd'' BUFFER_SIZE = 0 then Some (do_pwd k s6)
      else
        Some (Ret (Some (- 1))
          (if strnlen buf BUFFER_SIZE \<noteq> 0
           then fprintf_stderr (''myshell: '' @ buf @ '': No such file or directory'' @ NL) s6
           else s6))))))))"

section \<open>main\<close>

definition display_prompt :: "'w os \<Rightarrow> 'w proc \<Rightarrow> 'w proc" where
  "display_prompt k s =
     (case sys (os_getcwd k MAX_PATH_LENGTH) (Getcwd MAX_PATH_LENGTH) s of
        (Inl e, s1) \<Rightarrow> s1
      | (Inr current_dir, s1) \<Rightarrow>
          fprintf_stdout (''myshell:'' @ ESC @ ''[32;1m'' @ current_dir @ ESC @ ''[0m> '') s1)"

text \<open>
  One pass through the body of \<open>while (true)\<close> ends with the loop still running, with
  \<open>exit\<close> called, or in undefined behaviour. The values returned by \<open>do_cd\<close> and
  \<open>execute_command\<close> are dropped. The input of a pass is what \<open>fgets\<close> delivers:
  \<open>None\<close> for a null pointer, otherwise the line read.
\<close>

datatype 'w status = Running "'w proc" | Exited int "'w proc" | Crashed ub "'w proc"

fun drop_result :: "'w outcome \<Rightarrow> 'w status" where
  "drop_result (Ret v s) = Running s"
| "drop_result (Undef u s) = Crashed u s"

text \<open>
  The part of the body that follows \<open>strip_trailing_whitespace\<close>: \<open>filename\<close> is
  zeroed, then \<open>cd\<close> and \<open>exit\<close> are tried before \<open>execute_command\<close>.
\<close>

definition main_dispatch :: "'w os \<Rightarrow> string \<Rightarrow> 'w proc \<Rightarrow> 'w status option" where
  "main_dispatch k buf s =
     (case sscanf_filename buf ''cd %s'' (s\<lparr>filename := []\<rparr>) of (n, s1) \<Rightarrow>
        if n = 1 \<or> strncmp buf ''cd'' BUFFER_SIZE = 0
        then Some (drop_result (do_cd k (filename s1) s1))
        else if strncmp buf ''exit'' BUFFER_SIZE = 0
        then Some (Exited EXIT_SUCCESS s1)
        else map_option drop_result (execute_command k buf s1))"

text \<open>
  \<open>strip_trailing_whitespace\<close> leaves the array only downwards, at index \<open>-1\<close>, when
  every character of the line was white space and has been cleared (\<open>clear_line\<close>). The
  program does not stop there: the loop goes on through the bytes before the array
  (\<open>strip_before\<close>), clears each one that is white space and ends at the first that is
  not; \<open>main\<close> then carries on with the empty line. Only when the loop runs through all
  the bytes the process has before the array is the run undefined.
\<close>

definition clear_line :: "char list \<Rightarrow> char list" where
  "clear_line b = replicate (strnlen b BUFFER_SIZE) NUL @ drop (strnlen b BUFFER_SIZE) b"

fun strip_before :: "char list \<Rightarrow> int \<Rightarrow> ub + char list" where
  "strip_before [] i = Inl (Out_of_bounds i)"
| "strip_before (c # cs) i =
     (if isspace c then map_sum id (\<lambda>m. NUL # m) (strip_before cs (i - 1))
      else Inr (c # cs))"

definition main_iteration :: "'w os \<Rightarrow> string option \<Rightarrow> 'w proc \<Rightarrow> 'w status option" where
  "main_iteration k input s =
     (let s1 = display_prompt k s in
      case input of
        None \<Rightarrow> Some (Running s1)
      | Some line \<Rightarrow>
          (case strip_trailing_whitespace (fgets line (buffer s1)) of
             Inl u \<Rightarrow>
               (case strip_before (before_buffer s1) (- 1) of
                  Inl u' \<Rightarrow> Some (Crashed u' s1)
                | Inr m \<Rightarrow>
                    main_dispatch k (c_str (clear_line (fgets line (buffer s1))))
                      (s1\<lparr>buffer := clear_line (fgets line (buffer s1)),
                          before_buffer := m\<rparr>))
           | Inr b \<Rightarrow> main_dispatch k (c_str b) (s1\<lparr>buffer := b\<rparr>)))"

text \<open>The loop over the successive results of \<open>fgets\<close>.\<close>

fun main_loop :: "'w os \<Rightarrow> string option list \<Rightarrow> 'w proc \<Rightarrow> 'w status option" where
  "main_loop k [] s = Some (Running s)"
| "main_loop k (input # inputs) s =
     (case main_iteration k input s of
        Some (Running s1) \<Rightarrow> main_loop k inputs s1
      | r \<Rightarrow> r)"


section \<open>A scripted operating system for concrete runs\<close>

text \<open>
  To run the model on concrete inputs the world is a script: the list of answers the
  system will give, in order. Each call takes the next answer when it is of its kind and
  fails with \<open>EIO\<close> otherwise. The shell starts with both static arrays zeroed, nothing
  written and no call made; the byte before \<open>buffer\<close> is zero, as static storage is.
\<close>

datatype reply =
  Pw "string option" | Done "os_error + unit" | Path "os_error + string"
  | Dirp "os_error + nat" | Entry "os_error + string option" | Meta "os_error + stat"
  | Fd "os_error + int" | Bytes "os_error + char list"

fun reply_pw :: "reply list \<Rightarrow> string option \<times> reply list" where
  "reply_pw (Pw r # w) = (r, w)"
| "reply_pw w = (None, w)"

fun reply_done :: "reply list \<Rightarrow> (os_error + unit) \<times> reply list" where
  "reply_done (Done r # w) = (r, w)"
| "reply_done w = (Inl EIO, w)"

fun reply_path :: "reply list \<Rightarrow> (os_error + string) \<times> reply list" where
  "reply_path (Path r # w) = (r, w)"
| "reply_path w = (Inl EIO, w)"

fun reply_dirp :: "reply list \<Rightarrow> (os_error + nat) \<times> reply list" where
  "reply_dirp (Dirp r # w) = (r, w)"
| "reply_dirp w = (Inl EIO, w)"

fun reply_entry :: "reply list \<Rightarrow> (os_error + string option) \<times> reply list" where
  "reply_entry (Entry r # w) = (r, w)"
| "reply_entry w = (Inl EIO, w)"

fun reply_meta :: "reply list \<Rightarrow> (os_error + stat) \<times> reply list" where
  "reply_meta (Meta r # w) = (r, w)"
| "reply_meta w = (Inl EIO, w)"

fun reply_fd :: "reply list \<Rightarrow> (os_error + int) \<times> reply list" where
  "reply_fd (Fd r # w) = (r, w)"
| "reply_fd w = (Inl EIO, w)"

fun reply_bytes :: "reply list \<Rightarrow> (os_error + char list) \<times> reply list" where
  "reply_bytes (Bytes r # w) = (r, w)"
| "reply_bytes w = (Inl EIO, w)"

definition linux_strerror :: "nat \<Rightarrow> string" where
  "linux_strerror n =
     (if n = 2 then ''No such file or directory''
      else if n = 5 then ''Input/output error''
      else if n = 9 then ''Bad file descriptor''
      else if n = 13 then ''Permission denied''
      else if n = 21 then ''Is a directory''
      else ''Unknown error'')"

definition scripted :: "reply list os" where
  "scripted =
     \<lparr>os_getpwuid = reply_pw,
      os_chdir = (\<lambda>dirname. reply_done),
      os_getcwd = (\<lambda>n. reply_path),
      os_opendir = (\<lambda>dirname. reply_dirp),
      os_readdir = (\<lambda>d. reply_entry),
      os_closedir = (\<lambda>d. reply_done),
      os_lstat = (\<lambda>path. reply_meta),
      os_stat = (\<lambda>path. reply_meta),
      os_open = (\<lambda>path. reply_fd),
      os_read = (\<lambda>fd n. reply_bytes),
      os_close = (\<lambda>fd. reply_done),
      os_mkdir = (\<lambda>path mode. reply_done),
      os_rmdir = (\<lambda>path. reply_done),
      os_unlink = (\<lambda>path. reply_done),
      os_strerror = linux_strerror,
      os_ctime = dec\<rparr>"

definition start :: "reply list \<Rightarrow> reply list proc" where
  "start script =
     \<lparr>world = script, errno = 0, buffer = replicate BUFFER_SIZE NUL, filename = [],
      stdout = [], stderr = [], trace = [], before_buffer = [NUL]\<rparr>"


section \<open>Observations on outcomes\<close>

fun state_of :: "'w outcome \<Rightarrow> 'w proc" where
  "state_of (Ret v s) = s"
| "state_of (Undef u s) = s"

fun value_of :: "'w outcome \<Rightarrow> ub + int option" where
  "value_of (Ret v s) = Inr v"
| "value_of (Undef u s) = Inl u"



fun proc_of :: "'w status \<Rightarrow> 'w proc" where
  "proc_of (Running s) = s"
| "proc_of (Exited c s) = s"
| "proc_of (Crashed u s) = s"

fun exit_status :: "'w status \<Rightarrow> int option" where
  "exit_status (Exited c s) = Some c"
| "exit_status st = None"

fun crash_of :: "'w status \<Rightarrow> ub option" where
  "crash_of (Crashed u s) = Some u"
| "crash_of st = None"

text \<open>
  The working directory of a process changes only through \<open>chdir\<close>. \<open>no_chdir t t'\<close>
  says that the trace \<open>t'\<close> continues \<open>t\<close> with calls none of which is a \<open>chdir\<close>.
\<close>

fun is_chdir :: "syscall \<Rightarrow> bool" where
  "is_chdir (Chdir d) = True"
| "is_chdir c = False"

definition no_chdir :: "syscall list \<Rightarrow> syscall list \<Rightarrow> bool" where
  "no_chdir t t' =
     (take (length t) t' = t \<and> list_all (\<lambda>c. \<not> is_chdir c) (drop (length t) t'))"

text \<open>
  \<open>written\<close> counts the characters sent to the two output streams; a report makes it
  grow. \<open>calm s s'\<close>: from \<open>s\<close> to \<open>s'\<close> no \<open>chdir\<close> was called and nothing written was
  taken back. \<open>reported s r\<close>: the outcome \<open>r\<close> of a handler started in \<open>s\<close> is calm, and
  when the handler returned \<open>-1\<close> it has written something.
\<close>

definition written :: "'w proc \<Rightarrow> nat" where
  "written s = length (stdout s) + length (stderr s)"

definition calm :: "'w proc \<Rightarrow> 'w proc \<Rightarrow> bool" where
  "calm s s' = (no_chdir (trace s) (trace s') \<and> written s \<le> written s')"

definition reported :: "'w proc \<Rightarrow> 'w outcome \<Rightarrow> bool" where
  "reported s r =
     (calm s (state_of r) \<and>
      (value_of r = Inr (Some (- 1)) \<longrightarrow> written s < written (state_of r)))"

definition same_out :: "'w proc \<Rightarrow> 'w proc \<Rightarrow> bool" where
  "same_out s s' = (trace s' = trace s \<and> written s' = written s)"

text \<open>
  A line read into a buffer that held \<open>b0\<close> is the exit command when stripping it
  succeeds and leaves the string \<open>exit\<close>.
\<close>

definition exit_command :: "string \<Rightarrow> char list \<Rightarrow> bool" where
  "exit_command line b0 =
     (case strip_trailing_whitespace (fgets line b0) of
        Inl u \<Rightarrow> False
      | Inr b \<Rightarrow> c_str b = ''exit'')"

text \<open>
  The shapes of a command line: \<open>blank\<close> is a non-empty run of white space, \<open>token\<close> a
  non-empty run of characters that are neither white space nor the terminator, and
  \<open>tail_ok\<close> holds of what may follow an argument: nothing, or white space and anything.
  \<open>starts_with v line\<close> says that \<open>line\<close> begins with the characters of \<open>v\<close>.
\<close>

definition blank :: "string \<Rightarrow> bool" where
  "blank ws = (ws \<noteq> [] \<and> list_all isspace ws)"

definition token :: "string \<Rightarrow> bool" where
  "token a = (a \<noteq> [] \<and> list_all (\<lambda>c. \<not> isspace c \<and> c \<noteq> NUL) a)"

definition tail_ok :: "string \<Rightarrow> bool" where
  "tail_ok rest = (case rest of [] \<Rightarrow> True | c # cs \<Rightarrow> isspace c)"

definition verbs :: "string list" where
  "verbs = [''cd'', ''exit'', ''cat'', ''stat'', ''mkdir'', ''rmdir'', ''rm'', ''ls'', ''pwd'']"

definition starts_with :: "string \<Rightarrow> string \<Rightarrow> bool" where
  "starts_with v line = (take (length v) line = v)"

text \<open>
  What \<open>main\<close> and \<open>execute_command\<close> do with a line no test accepts: no handler runs,
  the line is reported as not found unless it is empty, and the loop goes on.
\<close>

definition unknown_command :: "string \<Rightarrow> 'w proc \<Rightarrow> 'w status" where
  "unknown_command line s =
     Running (if strnlen line BUFFER_SIZE \<noteq> 0
              then fprintf_stderr (''myshell: '' @ line @ '': No such file or directory'' @ NL)
                     (s\<lparr>filename := []\<rparr>)
              else s\<lparr>filename := []\<rparr>)"

text \<open>
  The parser as the specification words it: the verb is the first token of the line
  delimited by white space.
\<close>

definition spec_verb :: "string \<Rightarrow> string" where
  "spec_verb line = takeWhile (\<lambda>c. \<not> isspace c) (dropWhile isspace line)"

section \<open>Running the model on the scripted system\<close>

lemma scripted_calls:
  "os_getpwuid scripted = reply_pw"
  "os_chdir scripted = (\<lambda>dirname. reply_done)"
  "os_getcwd scripted = (\<lambda>n. reply_path)"
  "os_opendir scripted = (\<lambda>dirname. reply_dirp)"
  "os_readdir scripted = (\<lambda>d. reply_entry)"
  "os_closedir scripted = (\<lambda>d. reply_done)"
  "os_lstat scripted = (\<lambda>path. reply_meta)"
  "os_stat scripted = (\<lambda>path. reply_meta)"
  "os_open scripted = (\<lambda>path. reply_fd)"
  "os_read scripted = (\<lambda>fd n. reply_bytes)"
  "os_close scripted = (\<lambda>fd. reply_done)"
  "os_mkdir scripted = (\<lambda>path mode. reply_done)"
  "os_rmdir scripted = (\<lambda>path. reply_done)"
  "os_unlink scripted = (\<lambda>path. reply_done)"
  "os_strerror scripted = linux_strerror"
  "os_ctime scripted = dec"
  by (simp_all add: scripted_def)

lemmas run_defs =
  sys_def scripted_calls start_def fprintf_stdout_def fprintf_stderr_def linux_strerror_def

section \<open>strip_trailing_whitespace reads before the array\<close>

text \<open>
  C10 (the code departs from the claim). On a line that holds only the newline, the line
  a user sends by pressing return, the loop clears index 0 and then evaluates
  \<open>isspace(string[-1])\<close>: the scan index goes below zero and the byte before the array
  is read, whatever the array held before.
\<close>

theorem strip_trailing_whitespace_newline_reads_index_minus_one:
  "strip_trailing_whitespace (fgets NL b) = Inl (Out_of_bounds (- 1))"
  by (simp add: strip_trailing_whitespace_def fgets_def NL_def strnlen_def c_str_def
      BUFFER_SIZE_def NUL_def isspace_def)

section \<open>A bare rmdir runs the rm handler\<close>

lemma execute_command_rmdir:
  "execute_command k ''rmdir'' s = Some (do_rm k ''dir'' (s\<lparr>filename := ''dir''\<rparr>))"
  by (simp add: execute_command_def sscanf_filename_def sscanf_def isspace_def EOF_def)

text \<open>
  C5 (the code departs from the claim). The line \<open>rmdir\<close> fails the test for
  \<open>"rmdir %s"\<close>, which finds no argument, and then passes the test for \<open>"rm %s"\<close>: the
  blank of the format matches no character and \<open>%s\<close> takes \<open>dir\<close>. So \<open>do_rm\<close> runs on
  the name \<open>dir\<close>, in every state and on every system, and where a file of that name
  exists it is unlinked and the command returns 0.
\<close>

theorem execute_command_bare_rmdir_unlinks_dir:
  "execute_command k ''rmdir'' s = Some (do_rm k ''dir'' (s\<lparr>filename := ''dir''\<rparr>))
   \<and> map_option (\<lambda>r. (value_of r, trace (state_of r)))
         (execute_command scripted ''rmdir'' (start [Done (Inr ())]))
       = Some (Inr (Some 0), [Unlink ''dir''])"
  by (simp add: execute_command_rmdir) (simp add: do_rm_def run_defs)

section \<open>do_stat reports its failure on the standard output\<close>

text \<open>
  C4 (the code departs from the claim). When \<open>stat\<close> fails for a file that does not
  exist, \<open>do_stat\<close> returns \<open>-1\<close> with its report, which carries the text of the system's
  error, appended to the standard output; nothing is written to the error stream.
\<close>

theorem do_stat_failure_goes_to_stdout:
  "(\<lambda>r. (value_of r, stdout (state_of r), stderr (state_of r)))
     (do_stat scripted ''nofile'' (start [Meta (Inl ENOENT), Meta (Inl ENOENT)]))
   = (Inr (Some (- 1)),
      ''Error outputting stat: nofile, No such file or directory'' @ NL, [])"
  by (simp add: do_stat_def run_defs)

section \<open>do_cat leaves the descriptor open when read fails\<close>

text \<open>
  C6 (the code departs from the claim). \<open>open\<close> succeeds on a directory and \<open>read\<close> then
  fails with \<open>EISDIR\<close>. \<open>do_cat\<close> returns \<open>-1\<close> after two system calls, the \<open>open\<close> that
  gave descriptor 3 and the \<open>read\<close>: descriptor 3 is never closed.
\<close>

theorem do_cat_read_error_leaks_descriptor:
  "map_option (\<lambda>r. (value_of r, trace (state_of r)))
     (do_cat scripted ''d'' (start [Fd (Inr 3), Bytes (Inl EISDIR)]))
   = Some (Inr (Some (- 1)), [Open ''d'', Read 3 BUFFER_SIZE])"
  apply (simp add: do_cat_def run_defs)
  apply (subst do_cat_loop.simps)
  apply (simp add: run_defs)
  done

section \<open>do_ls fails after a skipped entry\<close>

text \<open>
  C3 (the code departs from the claim). The directory \<open>d\<close> has one entry \<open>x\<close> whose
  \<open>lstat\<close> fails with \<open>EACCES\<close>; the entry is skipped with a warning and the stream then
  ends without any error of \<open>readdir\<close>. The \<open>errno\<close> left by \<open>lstat\<close> is still set when
  the loop is over, so \<open>do_ls\<close> reports an error reading the directory and returns \<open>-1\<close>.
\<close>

theorem do_ls_skipped_entry_returns_failure:
  "map_option (\<lambda>r. (value_of r, stdout (state_of r), stderr (state_of r), trace (state_of r)))
     (do_ls scripted ''d''
        (start [Dirp (Inr 1), Entry (Inr (Some ''x'')), Meta (Inl EACCES), Entry (Inr None),
                Done (Inr ())]))
   = Some (Inr (Some (- 1)), [],
       ''lstat failed for '' @ QUOTE @ ''d/x'' @ QUOTE @ '': Permission denied'' @ NL
         @ ''Error reading directory d :  Permission denied'' @ NL,
       [Opendir ''d'', Readdir 1, Lstat ''d/x'', Readdir 1, Closedir 1])"
  apply (simp add: do_ls_def run_defs)
  apply (subst ls_loop.simps)
  apply (simp add: run_defs PATH_MAX_def)
  apply (subst ls_loop.simps)
  apply (simp add: run_defs)
  done

section \<open>do_cat on a file of one byte, and on an empty file\<close>

text \<open>
  C1 (the code departs from the claim). After reading the single byte of the file,
  \<open>do_cat\<close> calls \<open>fwrite(buffer, 256, 255, stdout)\<close>: 65280 bytes are asked of an array
  of 256, so the read runs past the end of \<open>buffer\<close> at index 256 and nothing the model
  can name has been written. On an empty file the output is the single newline, but the
  function ends without a \<open>return\<close>: it returns no value, not 0.
\<close>

theorem do_cat_one_byte_file_reads_past_buffer:
  "map_option (\<lambda>r. (value_of r, stdout (state_of r)))
     (do_cat scripted ''f''
        (start [Fd (Inr 3), Bytes (Inr ''a''), Bytes (Inr []), Done (Inr ()), Done (Inl EBADF)]))
   = Some (Inl (Out_of_bounds 256), [])
   \<and> map_option (\<lambda>r. (value_of r, stdout (state_of r), trace (state_of r)))
       (do_cat scripted ''e'' (start [Fd (Inr 3), Bytes (Inr []), Done (Inr ()), Done (Inl EBADF)]))
     = Some (Inr None, NL, [Open ''e'', Read 3 BUFFER_SIZE, Close 3, Close 3])"
proof (intro conjI)
  show "map_option (\<lambda>r. (value_of r, stdout (state_of r)))
     (do_cat scripted ''f''
        (start [Fd (Inr 3), Bytes (Inr ''a''), Bytes (Inr []), Done (Inr ()), Done (Inl EBADF)]))
   = Some (Inl (Out_of_bounds 256), [])"
    apply (simp add: do_cat_def run_defs)
    apply (subst do_cat_loop.simps)
    apply (simp add: run_defs fwrite_def BUFFER_SIZE_def)
    done
  show "map_option (\<lambda>r. (value_of r, stdout (state_of r), trace (state_of r)))
       (do_cat scripted ''e'' (start [Fd (Inr 3), Bytes (Inr []), Done (Inr ()), Done (Inl EBADF)]))
     = Some (Inr None, NL, [Open ''e'', Read 3 BUFFER_SIZE, Close 3, Close 3])"
    apply (simp add: do_cat_def run_defs)
    apply (subst do_cat_loop.simps)
    apply (simp add: run_defs do_cat_close_def)
    done
qed


section \<open>Invariants of the handlers\<close>

lemma no_chdir_iff: "no_chdir t t' \<longleftrightarrow> (\<exists>u. t' = t @ u \<and> list_all (\<lambda>c. \<not> is_chdir c) u)"
proof
  assume "no_chdir t t'"
  then have "t' = t @ drop (length t) t'" "list_all (\<lambda>c. \<not> is_chdir c) (drop (length t) t')"
    by (simp_all add: no_chdir_def) (metis append_take_drop_id)
  then show "\<exists>u. t' = t @ u \<and> list_all (\<lambda>c. \<not> is_chdir c) u" by blast
next
  assume "\<exists>u. t' = t @ u \<and> list_all (\<lambda>c. \<not> is_chdir c) u"
  then show "no_chdir t t'" by (auto simp: no_chdir_def)
qed

lemma no_chdir_refl [simp]: "no_chdir t t"
  by (simp add: no_chdir_def)

lemma no_chdir_snoc: "no_chdir t t' \<Longrightarrow> \<not> is_chdir c \<Longrightarrow> no_chdir t (t' @ [c])"
  by (auto simp: no_chdir_iff)

lemma no_chdir_trans: "no_chdir t t' \<Longrightarrow> no_chdir t' t'' \<Longrightarrow> no_chdir t t''"
  by (auto simp: no_chdir_iff)


lemma no_chdir_append [simp]: "no_chdir t (t @ u) = list_all (\<lambda>c. \<not> is_chdir c) u"
  by (simp add: no_chdir_def)

lemma calm_refl [simp]: "calm s s"
  by (simp add: calm_def)

lemma calm_trans: "calm s s' \<Longrightarrow> calm s' s'' \<Longrightarrow> calm s s''"
  by (auto simp: calm_def intro: no_chdir_trans)

lemma sys_fields [simp]:
  "trace (snd (sys f c s)) = trace s @ [c]"
  "stdout (snd (sys f c s)) = stdout s"
  "stderr (snd (sys f c s)) = stderr s"
  "filename (snd (sys f c s)) = filename s"
  "buffer (snd (sys f c s)) = buffer s"
  "written (snd (sys f c s)) = written s"
  by (simp_all add: sys_def written_def split: prod.splits)

lemma fprintf_fields [simp]:
  "trace (fprintf_stdout m s) = trace s"
  "trace (fprintf_stderr m s) = trace s"
  "written (fprintf_stdout m s) = written s + length m"
  "written (fprintf_stderr m s) = written s + length m"
  by (simp_all add: fprintf_stdout_def fprintf_stderr_def written_def)

lemma written_fields [simp]:
  "written (s\<lparr>filename := x\<rparr>) = written s"
  "written (s\<lparr>buffer := b\<rparr>) = written s"
  "written (s\<lparr>errno := e\<rparr>) = written s"
  "written (s\<lparr>world := w, trace := t\<rparr>) = written s"
  by (simp_all add: written_def)

lemma NL_length [simp]: "length NL = 1"
  by (simp add: NL_def)

lemma reported_trans: "calm s s1 \<Longrightarrow> reported s1 r \<Longrightarrow> reported s r"
  by (auto simp: reported_def calm_def intro: no_chdir_trans)

lemma do_mkdir_reported: "reported s (do_mkdir k d s)"
  by (simp add: do_mkdir_def reported_def calm_def case_prod_beta split: sum.splits)

lemma do_rmdir_reported: "reported s (do_rmdir k d s)"
  by (simp add: do_rmdir_def reported_def calm_def case_prod_beta split: sum.splits)

lemma do_rm_reported: "reported s (do_rm k d s)"
  by (simp add: do_rm_def reported_def calm_def case_prod_beta split: sum.splits)

lemma do_pwd_reported: "reported s (do_pwd k s)"
  by (simp add: do_pwd_def reported_def calm_def case_prod_beta split: sum.splits)

lemma do_stat_reported: "reported s (do_stat k f s)"
  by (simp add: do_stat_def reported_def calm_def case_prod_beta split: sum.splits)

lemma do_cat_close_reported: "reported s (do_cat_close k f fd s)"
  by (simp add: do_cat_close_def reported_def calm_def case_prod_beta Let_def)



lemma do_cat_loop_reported:
  assumes "do_cat_loop k f fd s = Some r"
  shows "reported s r"
proof (rule do_cat_loop.raw_induct[where P = "\<lambda>k f fd s r. reported s r", OF _ assms])
  fix loop :: "'a os \<Rightarrow> string \<Rightarrow> int \<Rightarrow> 'a proc \<Rightarrow> 'a outcome option"
  fix k f fd s r
  assume 1: "\<And>k f fd s r. loop k f fd s = Some r \<Longrightarrow> reported s r"
    "(case sys (os_read k fd BUFFER_SIZE) (Read fd BUFFER_SIZE) s of
        (Inl e, s1) \<Rightarrow>
          Some (Ret (Some (- 1))
            (fprintf_stderr
               (''Error reading data from '' @ f @ '': '' @ os_strerror k (errno s1) @ NL)
               s1))
      | (Inr bytes, s1) \<Rightarrow>
          let got = take BUFFER_SIZE bytes;
              s2 = s1\<lparr>buffer := got @ drop (length got) (buffer s1)\<rparr>
          in if length got = 0 then Some (do_cat_close k f fd (fprintf_stdout NL s2))
             else
               (case fwrite (buffer s2) BUFFER_SIZE BUFFER_SIZE (BUFFER_SIZE - 1) of
                  Inl u \<Rightarrow> Some (Undef u s2)
                | Inr out \<Rightarrow> loop k f fd (fprintf_stdout out s2))) = Some r"
  obtain res s1 where sys: "sys (os_read k fd BUFFER_SIZE) (Read fd BUFFER_SIZE) s = (res, s1)"
    by (cases "sys (os_read k fd BUFFER_SIZE) (Read fd BUFFER_SIZE) s")
  have s1: "trace s1 = trace s @ [Read fd BUFFER_SIZE]" "written s1 = written s"
    using sys_fields(1,6)[of "os_read k fd BUFFER_SIZE" "Read fd BUFFER_SIZE" s] sys by simp_all
  then have c1: "calm s s1"
    by (simp add: calm_def)
  note body = 1(2)[unfolded sys prod.case]
  show "reported s r"
  proof (cases res)
    case (Inl e)
    then show ?thesis using body s1 by (auto simp: reported_def calm_def)
  next
    case (Inr bytes)
    define s2 where "s2 = s1\<lparr>buffer := take BUFFER_SIZE bytes @ drop (length (take BUFFER_SIZE bytes)) (buffer s1)\<rparr>"
    have c2: "calm s s2" using c1 by (simp add: s2_def calm_def)
    note body2 = body[unfolded Inr sum.case Let_def, folded s2_def]
    show ?thesis
    proof (cases "length (take BUFFER_SIZE bytes) = 0")
      case True
      then have "r = do_cat_close k f fd (fprintf_stdout NL s2)"
        using body2 by simp
      moreover have "calm s (fprintf_stdout NL s2)" using c2 by (simp add: calm_def)
      ultimately show ?thesis using do_cat_close_reported reported_trans by blast
    next
      case False
      note body3 = body2[unfolded if_not_P[OF False]]
      show ?thesis
      proof (cases "fwrite (buffer s2) BUFFER_SIZE BUFFER_SIZE (BUFFER_SIZE - 1)")
        case (Inl u)
        then have "r = Undef u s2" using body3 by simp
        then show ?thesis using c2 by (simp add: reported_def)
      next
        case (Inr data)
        then have "loop k f fd (fprintf_stdout data s2) = Some r"
          using body3 by simp
        then have "reported (fprintf_stdout data s2) r" by (rule 1(1))
        moreover have "calm s (fprintf_stdout data s2)" using c2 by (simp add: calm_def)
        ultimately show ?thesis using reported_trans by blast
      qed
    qed
  qed
qed

lemma do_cat_reported: "do_cat k f s = Some r \<Longrightarrow> reported s r"
proof -
  assume a: "do_cat k f s = Some r"
  obtain res s1 where sys: "sys (os_open k f) (Open f) s = (res, s1)"
    by (cases "sys (os_open k f) (Open f) s")
  have s1: "trace s1 = trace s @ [Open f]" "written s1 = written s"
    using sys_fields(1,6)[of "os_open k f" "Open f" s] sys by simp_all
  then have c1: "calm s s1"
    by (simp add: calm_def)
  show ?thesis
  proof (cases "(case res of Inl e \<Rightarrow> - 1 | Inr fd \<Rightarrow> fd) < 0")
    case True
    then show ?thesis using a sys s1 by (auto simp: do_cat_def reported_def calm_def Let_def)
  next
    case False
    then have "do_cat_loop k f (case res of Inl e \<Rightarrow> - 1 | Inr fd \<Rightarrow> fd) s1 = Some r"
      using a sys by (simp add: do_cat_def Let_def)
    then show ?thesis using do_cat_loop_reported c1 reported_trans by blast
  qed
qed

lemma ls_loop_calm:
  assumes "ls_loop k dir d s = Some s'"
  shows "calm s s'"
proof (rule ls_loop.raw_induct[where P = "\<lambda>k dir d s s'. calm s s'", OF _ assms])
  fix loop :: "'a os \<Rightarrow> string \<Rightarrow> nat \<Rightarrow> 'a proc \<Rightarrow> 'a proc option"
  fix k dir d s s'
  assume 1: "\<And>k dir d s s'. loop k dir d s = Some s' \<Longrightarrow> calm s s'"
    "(case sys (os_readdir k d) (Readdir d) s of
        (Inl e, s1) \<Rightarrow> Some s1
      | (Inr None, s1) \<Rightarrow> Some s1
      | (Inr (Some d_name), s1) \<Rightarrow>
          if PATH_MAX \<le> length dir + 1 + length d_name then
            loop k dir d
              (fprintf_stderr (''path too long: '' @ dir @ ''/'' @ d_name @ NL) s1)
          else
            (case sys (os_lstat k (dir @ ''/'' @ d_name)) (Lstat (dir @ ''/'' @ d_name)) s1 of
               (Inl e, s2) \<Rightarrow>
                 loop k dir d
                   (fprintf_stderr
                      (''lstat failed for '' @ QUOTE @ dir @ ''/'' @ d_name @ QUOTE @ '': ''
                         @ os_strerror k (errno s2) @ NL) s2)
             | (Inr st, s2) \<Rightarrow>
                 loop k dir d
                   (fprintf_stdout
                      (d_name @ TAB @ ''['' @ file_or_dir (st_mode st) @ '']'' @ TAB
                         @ ''(type='' @ ftype_string (st_mode st) @ '')'' @ TAB
                         @ ''size='' @ dec (st_size st) @ '' bytes '' @ NL) s2))) = Some s'"
  obtain res s1 where sys: "sys (os_readdir k d) (Readdir d) s = (res, s1)"
    by (cases "sys (os_readdir k d) (Readdir d) s")
  have s1: "trace s1 = trace s @ [Readdir d]" "written s1 = written s"
    using sys_fields(1,6)[of "os_readdir k d" "Readdir d" s] sys by simp_all
  then have c1: "calm s s1"
    by (simp add: calm_def)
  note body = 1(2)[unfolded sys prod.case]
  show "calm s s'"
  proof (cases res)
    case (Inl e)
    then show ?thesis using body c1 by simp
  next
    case (Inr entry)
    show ?thesis
    proof (cases entry)
      case None
      then show ?thesis using body c1 Inr by simp
    next
      case (Some d_name)
      note body2 = body[unfolded Inr Some sum.case option.case]
      show ?thesis
      proof (cases "PATH_MAX \<le> length dir + 1 + length d_name")
        case True
        have "loop k dir d (fprintf_stderr (''path too long: '' @ dir @ ''/'' @ d_name @ NL) s1) = Some s'"
          using body2 True by simp
        then have "calm (fprintf_stderr (''path too long: '' @ dir @ ''/'' @ d_name @ NL) s1) s'"
          by (rule 1(1))
        moreover have "calm s (fprintf_stderr (''path too long: '' @ dir @ ''/'' @ d_name @ NL) s1)"
          using c1 by (simp add: calm_def)
        ultimately show ?thesis by (rule calm_trans[rotated])
      next
        case False
        define path where "path = dir @ ''/'' @ d_name"
        obtain res2 s2 where sys2: "sys (os_lstat k path) (Lstat path) s1 = (res2, s2)"
          by (cases "sys (os_lstat k path) (Lstat path) s1")
        have s2: "trace s2 = trace s1 @ [Lstat path]" "written s2 = written s1"
          using sys_fields(1,6)[of "os_lstat k path" "Lstat path" s1] sys2 by simp_all
        then have c2: "calm s s2"
          using s1 by (simp add: calm_def)
        note body3 = body2[unfolded if_not_P[OF False], folded path_def, unfolded sys2 prod.case]
        obtain s3 where "loop k dir d s3 = Some s'" and "calm s2 s3"
          using body3 by (cases res2) (auto simp: calm_def)
        then have "calm s3 s'" "calm s s3"
          using 1(1) c2 calm_trans by blast+
        then show ?thesis by (rule calm_trans[rotated])
      qed
    qed
  qed
qed

lemma do_ls_reported: "do_ls k dirname s = Some r \<Longrightarrow> reported s r"
proof -
  assume a: "do_ls k dirname s = Some r"
  define dir where "dir = (if dirname \<noteq> [] then dirname else ''.'')"
  obtain res s1 where sys: "sys (os_opendir k dir) (Opendir dir) s = (res, s1)"
    by (cases "sys (os_opendir k dir) (Opendir dir) s")
  have s1: "trace s1 = trace s @ [Opendir dir]" "written s1 = written s"
    using sys_fields(1,6)[of "os_opendir k dir" "Opendir dir" s] sys by simp_all
  show ?thesis
  proof (cases res)
    case (Inl e)
    then show ?thesis using a sys s1 by (auto simp: do_ls_def dir_def[symmetric] reported_def calm_def)
  next
    case (Inr d)
    then obtain s2 where loop: "ls_loop k dir d (s1\<lparr>errno := 0\<rparr>) = Some s2"
      using a sys by (auto simp: do_ls_def dir_def[symmetric] split: option.splits)
    have "calm (s1\<lparr>errno := 0\<rparr>) s2" using loop by (rule ls_loop_calm)
    then have c2: "no_chdir (trace s) (trace s2)" "written s \<le> written s2"
      using s1 by (auto simp: calm_def no_chdir_iff)
    show ?thesis
      using a sys Inr loop c2
      by (auto simp: do_ls_def dir_def[symmetric] reported_def calm_def case_prod_beta no_chdir_snoc
          split: if_splits sum.splits)
  qed
qed

lemma do_cd_chdir_written: "value_of (do_cd_chdir k d s) = Inr (Some (- 1)) \<Longrightarrow> written s < written (state_of (do_cd_chdir k d s))"
  by (simp add: do_cd_chdir_def case_prod_beta split: sum.splits)

lemma do_cd_written: "value_of (do_cd k d s) = Inr (Some (- 1)) \<Longrightarrow> written s < written (state_of (do_cd k d s))"
  by (auto simp: do_cd_def do_cd_chdir_def case_prod_beta Let_def split: sum.splits option.splits if_splits)

lemma sscanf_filename_fields [simp]:
  "trace (snd (sscanf_filename l f s)) = trace s"
  "written (snd (sscanf_filename l f s)) = written s"
  by (simp_all add: sscanf_filename_def written_def split: prod.splits option.splits)

lemma calm_sscanf_filename [simp]: "calm s (snd (sscanf_filename l f s')) = calm s s'"
  by (simp add: calm_def)

lemma calm_filename [simp]: "calm s (s'\<lparr>filename := x\<rparr>) = calm s s'"
  by (simp add: calm_def)

lemma same_out_simps [simp]:
  "same_out s s"
  "same_out s (snd (sscanf_filename l f s')) = same_out s s'"
  "same_out s (s'\<lparr>filename := x\<rparr>) = same_out s s'"
  by (simp_all add: same_out_def)

lemma reported_via_calm: "reported s' r \<Longrightarrow> same_out s s' \<Longrightarrow> calm s (state_of r)"
  by (simp add: reported_def calm_def same_out_def)

lemma reported_via_written:
  "reported s' r \<Longrightarrow> same_out s s' \<Longrightarrow> value_of r = Inr (Some (- 1)) \<Longrightarrow>
   written s < written (state_of r)"
  by (simp add: reported_def calm_def same_out_def)

lemmas handlers_calm =
  reported_via_calm[OF do_cat_reported] reported_via_calm[OF do_ls_reported]
  reported_via_calm[OF do_stat_reported] reported_via_calm[OF do_mkdir_reported]
  reported_via_calm[OF do_rmdir_reported] reported_via_calm[OF do_rm_reported]
  reported_via_calm[OF do_pwd_reported]

lemmas handlers_written =
  reported_via_written[OF do_cat_reported] reported_via_written[OF do_ls_reported]
  reported_via_written[OF do_stat_reported] reported_via_written[OF do_mkdir_reported]
  reported_via_written[OF do_rmdir_reported] reported_via_written[OF do_rm_reported]
  reported_via_written[OF do_pwd_reported]

lemma execute_command_calm:
  assumes "execute_command k line s = Some r"
  shows "calm s (state_of r)"
  using assms
  by (auto simp: execute_command_def case_prod_beta Let_def calm_def split: if_splits
      intro: handlers_calm[unfolded calm_def, THEN conjunct1] handlers_calm[unfolded calm_def, THEN conjunct2])

lemma execute_command_written:
  assumes "execute_command k line s = Some r" "value_of r = Inr (Some (- 1))"
    "strnlen line BUFFER_SIZE \<noteq> 0"
  shows "written s < written (state_of r)"
  using assms
  by (auto simp: execute_command_def case_prod_beta Let_def split: if_splits
      intro: handlers_written)

lemma display_prompt_calm: "calm s (display_prompt k s)"
  by (simp add: display_prompt_def calm_def case_prod_beta split: sum.splits)

lemma drop_result_not_exited [simp]: "drop_result r \<noteq> Exited c s"
  by (cases r) simp_all

lemma strncmp_exact:
  "length v < n \<Longrightarrow> strncmp line v n = 0 \<longleftrightarrow> line = v"
proof -
  assume v: "length v < n"
  have "take n line = v \<longleftrightarrow> line = v"
  proof
    assume t: "take n line = v"
    then have "length (take n line) < n" using v by simp
    then have "length line < n" by (simp add: min_def split: if_splits)
    then show "line = v" using t by simp
  next
    assume "line = v" then show "take n line = v" using v by simp
  qed
  then show ?thesis using v by (simp add: strncmp_def)
qed

lemma main_dispatch_exited:
  assumes "main_dispatch k line s = Some (Exited c s')"
  shows "c = EXIT_SUCCESS \<and> line = ''exit''"
  using assms strncmp_exact[of "''exit''" BUFFER_SIZE line]
  by (auto simp: main_dispatch_def case_prod_beta BUFFER_SIZE_def split: if_splits)

lemma c_str_clear_line: "c_str (clear_line b) = []"
proof (cases "strnlen b BUFFER_SIZE")
  case 0
  then have "takeWhile (\<lambda>c. c \<noteq> NUL) (take BUFFER_SIZE b) = []"
    by (simp add: strnlen_def c_str_def)
  then have "takeWhile (\<lambda>c. c \<noteq> NUL) b = []"
    by (cases b) (auto simp: BUFFER_SIZE_def split: if_splits)
  then show ?thesis using 0 by (simp add: clear_line_def c_str_def)
next
  case (Suc n)
  then show ?thesis by (simp add: clear_line_def c_str_def)
qed

lemma strip_loop_leaves_below:
  "strip_loop string i = Inl u \<Longrightarrow> - 1 \<le> i \<Longrightarrow> i < int (length string) \<Longrightarrow>
   u = Out_of_bounds (- 1)"
proof (induction string i rule: strip_loop.induct)
  case (1 string i)
  show ?case
  proof (cases "i < 0")
    case True
    then have "i = - 1" using 1(3) by arith
    then show ?thesis using 1(2) by simp
  next
    case False
    then show ?thesis using 1 by (auto split: if_splits)
  qed
qed

lemma main_iteration_exited:
  assumes "main_iteration k input s = Some (Exited c s')"
  shows "c = EXIT_SUCCESS \<and> (\<exists>line. input = Some line \<and> exit_command line (buffer (display_prompt k s)))"
  using assms
  by (auto simp: main_iteration_def Let_def exit_command_def c_str_clear_line
      split: option.splits sum.splits dest!: main_dispatch_exited)

lemma main_loop_exited:
  "main_loop k inputs s = Some (Exited c s') \<Longrightarrow>
   c = EXIT_SUCCESS \<and>
   (\<exists>pre line post s0. inputs = pre @ Some line # post \<and> main_loop k pre s = Some (Running s0)
      \<and> exit_command line (buffer (display_prompt k s0)))"
proof (induction inputs arbitrary: s)
  case Nil
  then show ?case by simp
next
  case (Cons input inputs)
  show ?case
  proof (cases "main_iteration k input s")
    case None
    then show ?thesis using Cons.prems by simp
  next
    case (Some st)
    show ?thesis
    proof (cases st)
      case (Running s1)
      then have "main_loop k inputs s1 = Some (Exited c s')"
        using Cons.prems Some by simp
      from Cons.IH[OF this] obtain pre line post s0 where
        c: "c = EXIT_SUCCESS" and i: "inputs = pre @ Some line # post"
        and p: "main_loop k pre s1 = Some (Running s0)"
        and e: "exit_command line (buffer (display_prompt k s0))"
        by blast
      have "input # inputs = (input # pre) @ Some line # post" using i by simp
      moreover have "main_loop k (input # pre) s = Some (Running s0)"
        using p Some Running by simp
      ultimately show ?thesis using c e by blast
    next
      case (Exited c1 s1)
      then have "c1 = c" using Cons.prems Some by simp
      then obtain line where "c = EXIT_SUCCESS" "input = Some line"
        "exit_command line (buffer (display_prompt k s))"
        using main_iteration_exited[of k input s c1 s1] Some Exited by auto
      moreover have "main_loop k [] s = Some (Running s)" by simp
      ultimately show ?thesis by (metis append_Nil)
    next
      case (Crashed u s1)
      then show ?thesis using Cons.prems Some by simp
    qed
  qed
qed


section \<open>How lines are matched\<close>

lemma scan_assigns_once: "scan ds inp = (n, Some a) \<Longrightarrow> n = 1"
  by (induction ds inp rule: scan.induct) (auto split: list.splits if_splits)

lemma scan_literals_prefix:
  "fst (scan (map Lit v @ ds) line) = 1 \<Longrightarrow> take (length v) line = v"
  by (induction v arbitrary: line) (auto simp: EOF_def split: list.splits if_splits)

lemma scan_argument:
  assumes "list_all isspace ws" "token a" "tail_ok rest"
  shows "scan [White, Conv_s] (ws @ a @ rest) = (1, Some a)"
proof -
  obtain c cs where a: "a = c # cs" and c: "\<not> isspace c" and cs: "list_all (\<lambda>c. \<not> isspace c) cs"
    using assms(2) by (cases a) (auto simp: token_def list_all_iff)
  have d: "dropWhile isspace (ws @ a @ rest) = a @ rest"
    using assms(1) a c by (induction ws) auto
  have t: "takeWhile (\<lambda>c. \<not> isspace c) (cs @ rest) = cs"
    using cs assms(3) by (induction cs) (auto simp: tail_ok_def split: list.splits)
  show ?thesis
    using d t a c by simp
qed

lemma blank_cases: "blank ws \<Longrightarrow> \<exists>w ws'. ws = w # ws' \<and> isspace w \<and> list_all isspace ws'"
  by (cases ws) (auto simp: blank_def)

lemma token_strnlen: "token a \<Longrightarrow> strnlen a BUFFER_SIZE \<noteq> 0"
  by (cases a) (auto simp: token_def strnlen_def c_str_def BUFFER_SIZE_def)

lemmas scan_defs = sscanf_def isspace_def EOF_def strncmp_def BUFFER_SIZE_def

lemma main_dispatch_cd_arg:
  assumes "blank ws" "token a" "tail_ok rest"
  shows "main_dispatch k (''cd'' @ ws @ a @ rest) s = Some (drop_result (do_cd k a (s\<lparr>filename := a\<rparr>)))"
proof -
  define line where "line = ''cd'' @ ws @ a @ rest"
  have "sscanf line ''cd %s'' = (1, Some a)"
    using scan_argument[of ws a rest] assms by (simp add: line_def scan_defs blank_def)
  then have "main_dispatch k line s = Some (drop_result (do_cd k a (s\<lparr>filename := a\<rparr>)))"
    by (simp add: main_dispatch_def sscanf_filename_def)
  then show ?thesis by (simp only: line_def)
qed

lemma main_dispatch_cat_arg:
  assumes "blank ws" "token a" "tail_ok rest"
  shows "main_dispatch k (''cat'' @ ws @ a @ rest) s = map_option drop_result (do_cat k a (s\<lparr>filename := a\<rparr>))"
proof -
  define line where "line = ''cat'' @ ws @ a @ rest"
  have hit: "sscanf line ''cat %s'' = (1, Some a)"
    using scan_argument[of ws a rest] assms by (simp add: line_def scan_defs blank_def)
  have miss: "sscanf line ''cd %s'' = (0, None)" "strncmp line ''cd'' BUFFER_SIZE \<noteq> 0"
    "strncmp line ''exit'' BUFFER_SIZE \<noteq> 0"
    by (simp_all add: line_def scan_defs)
  show ?thesis
    unfolding line_def[symmetric]
    by (simp add: main_dispatch_def execute_command_def sscanf_filename_def hit miss)
qed

lemma main_dispatch_rm_arg:
  assumes "blank ws" "token a" "tail_ok rest"
  shows "main_dispatch k (''rm'' @ ws @ a @ rest) s = Some (drop_result (do_rm k a (s\<lparr>filename := a\<rparr>)))"
proof -
  define line where "line = ''rm'' @ ws @ a @ rest"
  have hit: "sscanf line ''rm %s'' = (1, Some a)"
    using scan_argument[of ws a rest] assms by (simp add: line_def scan_defs blank_def)
  have miss: "sscanf line ''cd %s'' = (0, None)" "strncmp line ''cd'' BUFFER_SIZE \<noteq> 0"
    "strncmp line ''exit'' BUFFER_SIZE \<noteq> 0"
    "sscanf line ''cat %s'' = (0, None)" "sscanf line ''stat %s'' = (0, None)"
    "sscanf line ''mkdir %s'' = (0, None)"
    by (simp_all add: line_def scan_defs)
  have miss2: "sscanf line ''rmdir %s'' = (0, None)"
    using blank_cases[OF assms(1)] by (auto simp: line_def scan_defs)
  show ?thesis
    unfolding line_def[symmetric]
    by (simp add: main_dispatch_def execute_command_def sscanf_filename_def hit miss miss2)
qed

lemma main_dispatch_ls_arg:
  assumes "blank ws" "token a" "tail_ok rest"
  shows "main_dispatch k (''ls'' @ ws @ a @ rest) s = map_option drop_result (do_ls k a (s\<lparr>filename := a\<rparr>))"
proof -
  define line where "line = ''ls'' @ ws @ a @ rest"
  have hit: "sscanf line ''ls %s'' = (1, Some a)"
    using scan_argument[of ws a rest] assms by (simp add: line_def scan_defs blank_def)
  have miss: "sscanf line ''cd %s'' = (0, None)" "strncmp line ''cd'' BUFFER_SIZE \<noteq> 0"
    "strncmp line ''exit'' BUFFER_SIZE \<noteq> 0"
    "sscanf line ''cat %s'' = (0, None)" "sscanf line ''stat %s'' = (0, None)"
    "sscanf line ''mkdir %s'' = (0, None)" "sscanf line ''rmdir %s'' = (0, None)"
    "sscanf line ''rm %s'' = (0, None)"
    by (simp_all add: line_def scan_defs)
  show ?thesis
    unfolding line_def[symmetric]
    by (simp add: main_dispatch_def execute_command_def sscanf_filename_def hit miss token_strnlen[OF assms(2)])
qed

lemma main_dispatch_exact:
  "main_dispatch k ''cd'' s = Some (drop_result (do_cd k [] (s\<lparr>filename := []\<rparr>)))"
  "main_dispatch k ''exit'' s = Some (Exited EXIT_SUCCESS (s\<lparr>filename := []\<rparr>))"
  "main_dispatch k ''ls'' s = map_option drop_result (do_ls k ''.'' (s\<lparr>filename := ''.''\<rparr>))"
  "main_dispatch k ''pwd'' s = Some (drop_result (do_pwd k (s\<lparr>filename := []\<rparr>)))"
  by (simp_all add: main_dispatch_def execute_command_def sscanf_filename_def scan_defs strnlen_def c_str_def)

lemma sscanf_needs_prefix:
  assumes "parse_format fmt = map Lit v @ ds" "\<not> starts_with v line"
  shows "fst (sscanf line fmt) \<noteq> 1"
  using assms scan_literals_prefix[of v ds line] by (auto simp: sscanf_def starts_with_def)

lemma sscanf_filename_miss:
  "fst (sscanf line fmt) \<noteq> 1 \<Longrightarrow> sscanf_filename line fmt s = (fst (sscanf line fmt), s)"
  by (cases "sscanf line fmt") (auto simp: sscanf_filename_def sscanf_def split: option.splits dest: scan_assigns_once)

lemma strncmp_needs_prefix:
  assumes "\<not> starts_with v line" "length v \<le> n"
  shows "strncmp line v n \<noteq> 0"
proof
  assume "strncmp line v n = 0"
  then have "take n line = v" using assms(2) by (simp add: strncmp_def split: if_splits)
  then have "take (length v) (take n line) = v" by simp
  then show False using assms by (simp add: starts_with_def min_def)
qed

lemma main_dispatch_unknown:
  assumes "list_all (\<lambda>v. \<not> starts_with v line) verbs"
  shows "main_dispatch k line s = Some (unknown_command line s)"
proof -
  have v: "\<not> starts_with ''cd'' line" "\<not> starts_with ''exit'' line" "\<not> starts_with ''cat'' line"
    "\<not> starts_with ''stat'' line" "\<not> starts_with ''mkdir'' line" "\<not> starts_with ''rmdir'' line"
    "\<not> starts_with ''rm'' line" "\<not> starts_with ''ls'' line" "\<not> starts_with ''pwd'' line"
    using assms by (simp_all add: verbs_def)
  have m0: "fst (sscanf line ''cd %s'') \<noteq> 1"
    by (rule sscanf_needs_prefix[where v = "''cd''" and ds = "[White, Conv_s]"])
      (simp_all add: isspace_def v)
  have m1: "fst (sscanf line ''cat %s'') \<noteq> 1"
    by (rule sscanf_needs_prefix[where v = "''cat''" and ds = "[White, Conv_s]"])
      (simp_all add: isspace_def v)
  have m2: "fst (sscanf line ''stat %s'') \<noteq> 1"
    by (rule sscanf_needs_prefix[where v = "''stat''" and ds = "[White, Conv_s]"])
      (simp_all add: isspace_def v)
  have m3: "fst (sscanf line ''mkdir %s'') \<noteq> 1"
    by (rule sscanf_needs_prefix[where v = "''mkdir''" and ds = "[White, Conv_s]"])
      (simp_all add: isspace_def v)
  have m4: "fst (sscanf line ''rmdir %s'') \<noteq> 1"
    by (rule sscanf_needs_prefix[where v = "''rmdir''" and ds = "[White, Conv_s]"])
      (simp_all add: isspace_def v)
  have m5: "fst (sscanf line ''rm %s'') \<noteq> 1"
    by (rule sscanf_needs_prefix[where v = "''rm''" and ds = "[White, Conv_s]"])
      (simp_all add: isspace_def v)
  have m6: "fst (sscanf line ''ls %s'') \<noteq> 1"
    by (rule sscanf_needs_prefix[where v = "''ls''" and ds = "[White, Conv_s]"])
      (simp_all add: isspace_def v)
  have c0: "strncmp line ''cd'' BUFFER_SIZE \<noteq> 0"
    by (rule strncmp_needs_prefix) (simp_all add: BUFFER_SIZE_def v)
  have c1: "strncmp line ''exit'' BUFFER_SIZE \<noteq> 0"
    by (rule strncmp_needs_prefix) (simp_all add: BUFFER_SIZE_def v)
  have c2: "strncmp line ''ls'' BUFFER_SIZE \<noteq> 0"
    by (rule strncmp_needs_prefix) (simp_all add: BUFFER_SIZE_def v)
  have c3: "strncmp line ''pwd'' BUFFER_SIZE \<noteq> 0"
    by (rule strncmp_needs_prefix) (simp_all add: BUFFER_SIZE_def v)
  note m = m0 m1 m2 m3 m4 m5 m6 and c = c0 c1 c2 c3
  show ?thesis
    by (simp add: main_dispatch_def execute_command_def sscanf_filename_miss m c unknown_command_def)
qed

lemma main_dispatch_pwd_arg:
  assumes "blank ws"
  shows "main_dispatch k (''pwd'' @ ws @ x) s = Some (unknown_command (''pwd'' @ ws @ x) s)"
proof -
  define line where "line = ''pwd'' @ ws @ x"
  have miss: "sscanf line ''cd %s'' = (0, None)" "strncmp line ''cd'' BUFFER_SIZE \<noteq> 0"
    "strncmp line ''exit'' BUFFER_SIZE \<noteq> 0"
    "sscanf line ''cat %s'' = (0, None)" "sscanf line ''stat %s'' = (0, None)"
    "sscanf line ''mkdir %s'' = (0, None)" "sscanf line ''rmdir %s'' = (0, None)"
    "sscanf line ''rm %s'' = (0, None)" "sscanf line ''ls %s'' = (0, None)"
    "strncmp line ''ls'' BUFFER_SIZE \<noteq> 0"
    by (simp_all add: line_def scan_defs)
  have miss2: "strncmp line ''pwd'' BUFFER_SIZE \<noteq> 0"
    using blank_cases[OF assms(1)] by (auto simp: line_def scan_defs)
  show ?thesis
    unfolding line_def[symmetric]
    by (simp add: main_dispatch_def execute_command_def sscanf_filename_def miss miss2 unknown_command_def)
qed


lemma main_dispatch_stat_arg:
  assumes "blank ws" "token a" "tail_ok rest"
  shows "main_dispatch k (''stat'' @ ws @ a @ rest) s = Some (drop_result (do_stat k a (s\<lparr>filename := a\<rparr>)))"
proof -
  define line where "line = ''stat'' @ ws @ a @ rest"
  have hit: "sscanf line ''stat %s'' = (1, Some a)"
    using scan_argument[of ws a rest] assms by (simp add: line_def scan_defs blank_def)
  have miss: "sscanf line ''cd %s'' = (0, None)" "strncmp line ''cd'' BUFFER_SIZE \<noteq> 0" "strncmp line ''exit'' BUFFER_SIZE \<noteq> 0" "sscanf line ''cat %s'' = (0, None)"
    by (simp_all add: line_def scan_defs)
  show ?thesis
    unfolding line_def[symmetric]
    by (simp add: main_dispatch_def execute_command_def sscanf_filename_def hit miss)
qed

lemma main_dispatch_mkdir_arg:
  assumes "blank ws" "token a" "tail_ok rest"
  shows "main_dispatch k (''mkdir'' @ ws @ a @ rest) s = Some (drop_result (do_mkdir k a (s\<lparr>filename := a\<rparr>)))"
proof -
  define line where "line = ''mkdir'' @ ws @ a @ rest"
  have hit: "sscanf line ''mkdir %s'' = (1, Some a)"
    using scan_argument[of ws a rest] assms by (simp add: line_def scan_defs blank_def)
  have miss: "sscanf line ''cd %s'' = (0, None)" "strncmp line ''cd'' BUFFER_SIZE \<noteq> 0" "strncmp line ''exit'' BUFFER_SIZE \<noteq> 0" "sscanf line ''cat %s'' = (0, None)" "sscanf line ''stat %s'' = (0, None)"
    by (simp_all add: line_def scan_defs)
  show ?thesis
    unfolding line_def[symmetric]
    by (simp add: main_dispatch_def execute_command_def sscanf_filename_def hit miss)
qed

lemma main_dispatch_rmdir_arg:
  assumes "blank ws" "token a" "tail_ok rest"
  shows "main_dispatch k (''rmdir'' @ ws @ a @ rest) s = Some (drop_result (do_rmdir k a (s\<lparr>filename := a\<rparr>)))"
proof -
  define line where "line = ''rmdir'' @ ws @ a @ rest"
  have hit: "sscanf line ''rmdir %s'' = (1, Some a)"
    using scan_argument[of ws a rest] assms by (simp add: line_def scan_defs blank_def)
  have miss: "sscanf line ''cd %s'' = (0, None)" "strncmp line ''cd'' BUFFER_SIZE \<noteq> 0" "strncmp line ''exit'' BUFFER_SIZE \<noteq> 0" "sscanf line ''cat %s'' = (0, None)" "sscanf line ''stat %s'' = (0, None)" "sscanf line ''mkdir %s'' = (0, None)"
    by (simp_all add: line_def scan_defs)
  show ?thesis
    unfolding line_def[symmetric]
    by (simp add: main_dispatch_def execute_command_def sscanf_filename_def hit miss)
qed

lemma main_dispatch_exit_arg:
  assumes "blank ws"
  shows "main_dispatch k (''exit'' @ ws @ x) s = Some (unknown_command (''exit'' @ ws @ x) s)"
proof -
  define line where "line = ''exit'' @ ws @ x"
  have miss: "sscanf line ''cd %s'' = (0, None)" "strncmp line ''cd'' BUFFER_SIZE \<noteq> 0"
    "sscanf line ''cat %s'' = (0, None)" "sscanf line ''stat %s'' = (0, None)"
    "sscanf line ''mkdir %s'' = (0, None)" "sscanf line ''rmdir %s'' = (0, None)"
    "sscanf line ''rm %s'' = (0, None)" "sscanf line ''ls %s'' = (0, None)"
    "strncmp line ''ls'' BUFFER_SIZE \<noteq> 0" "strncmp line ''pwd'' BUFFER_SIZE \<noteq> 0"
    by (simp_all add: line_def scan_defs)
  have miss2: "strncmp line ''exit'' BUFFER_SIZE \<noteq> 0"
    using blank_cases[OF assms(1)] by (auto simp: line_def scan_defs)
  show ?thesis
    unfolding line_def[symmetric]
    by (simp add: main_dispatch_def execute_command_def sscanf_filename_def miss miss2
        unknown_command_def)
qed

section \<open>cd without an argument trusts the lookup\<close>

text \<open>
  Where the lookup finds an entry whose home directory fits the 256 bytes of
  \<open>filename\<close>, \<open>do_cd\<close> on the empty string is \<open>chdir\<close> on that home directory: the calls
  made are the lookup and \<open>chdir(home)\<close>, the world afterwards is the one this \<open>chdir\<close>
  leaves, and the handler returns 0 exactly when \<open>chdir\<close> succeeds.
\<close>

lemma do_cd_home_when_resolvable:
  assumes "os_getpwuid k (world s) = (Some home, w)" and "length home < MAX_PATH_LENGTH"
  shows "do_cd k [] s =
        do_cd_chdir k home (s\<lparr>world := w, trace := trace s @ [Getpwuid], filename := home\<rparr>)
    \<and> trace (state_of (do_cd k [] s)) = trace s @ [Getpwuid, Chdir home]
    \<and> world (state_of (do_cd k [] s)) = snd (os_chdir k home w)
    \<and> (value_of (do_cd k [] s) = Inr (Some 0)) = (\<not> isl (fst (os_chdir k home w)))
    \<and> (value_of (do_cd k [] s) = Inr (Some (- 1))) = isl (fst (os_chdir k home w))"
proof -
  have d: "do_cd k [] s =
      do_cd_chdir k home (s\<lparr>world := w, trace := trace s @ [Getpwuid], filename := home\<rparr>)"
    using assms by (simp add: do_cd_def strnlen_def c_str_def strncpy_def)
  show ?thesis
    unfolding d
    by (simp add: do_cd_chdir_def sys_def fprintf_stderr_def case_prod_beta split: sum.splits)
qed

text \<open>
  C7 (the code departs from the claim). With an empty argument \<open>do_cd\<close> uses the result
  of \<open>getpwuid(getuid())\<close> unchecked, on every system and in every state: when no entry
  is found it dereferences the null pointer, and when the home directory has 256 bytes or
  more \<open>strncpy\<close> leaves \<open>filename\<close> without terminator; in both cases no \<open>chdir\<close> to the
  home directory is made and nothing is returned. Only in the remaining case is the
  target the home directory. So the line \<open>cd\<close>, for a user without an entry, ends the
  pass in a null dereference after the lookup alone.
\<close>

theorem do_cd_without_argument_trusts_lookup:
  "do_cd k [] s =
     (case os_getpwuid k (world s) of
        (None, w) \<Rightarrow> Undef Null_dereference (s\<lparr>world := w, trace := trace s @ [Getpwuid]\<rparr>)
      | (Some home, w) \<Rightarrow>
          if MAX_PATH_LENGTH \<le> length home
          then Undef Unterminated_string (s\<lparr>world := w, trace := trace s @ [Getpwuid]\<rparr>)
          else do_cd_chdir k home
                 (s\<lparr>world := w, trace := trace s @ [Getpwuid], filename := home\<rparr>))
   \<and> map_option crash_of (main_dispatch scripted ''cd'' (start [Pw None]))
       = Some (Some Null_dereference)
   \<and> map_option (\<lambda>st. trace (proc_of st)) (main_dispatch scripted ''cd'' (start [Pw None]))
       = Some [Getpwuid]
   \<and> value_of (do_cd scripted [] (start [Pw (Some (replicate 256 CHR ''a'')), Done (Inr ())]))
       = Inl Unterminated_string"
proof (intro conjI)
  show "do_cd k [] s =
     (case os_getpwuid k (world s) of
        (None, w) \<Rightarrow> Undef Null_dereference (s\<lparr>world := w, trace := trace s @ [Getpwuid]\<rparr>)
      | (Some home, w) \<Rightarrow>
          if MAX_PATH_LENGTH \<le> length home
          then Undef Unterminated_string (s\<lparr>world := w, trace := trace s @ [Getpwuid]\<rparr>)
          else do_cd_chdir k home
                 (s\<lparr>world := w, trace := trace s @ [Getpwuid], filename := home\<rparr>))"
    by (simp add: do_cd_def strnlen_def c_str_def strncpy_def split: prod.splits option.splits)
  show "map_option crash_of (main_dispatch scripted ''cd'' (start [Pw None]))
       = Some (Some Null_dereference)"
    by (simp add: main_dispatch_exact do_cd_def strnlen_def c_str_def scripted_calls start_def)
  show "map_option (\<lambda>st. trace (proc_of st)) (main_dispatch scripted ''cd'' (start [Pw None]))
       = Some [Getpwuid]"
    by (simp add: main_dispatch_exact do_cd_def strnlen_def c_str_def scripted_calls start_def)
  show "value_of (do_cd scripted [] (start [Pw (Some (replicate 256 CHR ''a'')), Done (Inr ())]))
       = Inl Unterminated_string"
    by (simp add: do_cd_def strnlen_def c_str_def strncpy_def MAX_PATH_LENGTH_def scripted_calls
        start_def)
qed

section \<open>Dispatch follows the patterns of the tests, not the first token\<close>

text \<open>
  C2, as stated, fails. The lines \<open>pwd\<close> and \<open>pwd now\<close> have the same first token, yet
  the first runs \<open>do_pwd\<close> (it asks for the working directory and prints it) and the
  second runs no handler: no system call is made and the line is reported as not found.
\<close>

theorem first_token_does_not_decide_dispatch:
  "spec_verb ''pwd now'' = spec_verb ''pwd''
   \<and> map_option proc_of (main_dispatch scripted ''pwd'' (start [Path (Inr ''/root'')]))
       = Some ((start [])
           \<lparr>stdout := ''myshell:'' @ ESC @ ''[32;1m/root'' @ ESC @ ''[0m> '' @ NL,
            trace := [Getcwd MAX_PATH_LENGTH]\<rparr>)
   \<and> map_option proc_of (main_dispatch scripted ''pwd now'' (start [Path (Inr ''/root'')]))
       = Some ((start [Path (Inr ''/root'')])
           \<lparr>stderr := ''myshell: pwd now: No such file or directory'' @ NL\<rparr>)"
proof (intro conjI)
  show "spec_verb ''pwd now'' = spec_verb ''pwd''"
    by (simp add: spec_verb_def isspace_def)
  show "map_option proc_of (main_dispatch scripted ''pwd'' (start [Path (Inr ''/root'')]))
       = Some ((start [])
           \<lparr>stdout := ''myshell:'' @ ESC @ ''[32;1m/root'' @ ESC @ ''[0m> '' @ NL,
            trace := [Getcwd MAX_PATH_LENGTH]\<rparr>)"
    by (simp add: main_dispatch_exact do_pwd_def run_defs)
  have "blank '' ''"
    by (simp add: blank_def isspace_def)
  from main_dispatch_pwd_arg[OF this, of scripted "''now''" "start [Path (Inr ''/root'')]"]
  show "map_option proc_of (main_dispatch scripted ''pwd now'' (start [Path (Inr ''/root'')]))
       = Some ((start [Path (Inr ''/root'')])
           \<lparr>stderr := ''myshell: pwd now: No such file or directory'' @ NL\<rparr>)"
    by (simp add: unknown_command_def strnlen_def c_str_def NUL_def BUFFER_SIZE_def
        fprintf_stderr_def start_def)
qed

text \<open>
  C2, amended. A line that begins with \<open>cd\<close>, \<open>cat\<close>, \<open>stat\<close>, \<open>mkdir\<close>, \<open>rmdir\<close>,
  \<open>rm\<close> or \<open>ls\<close>, then white space, then an argument token, runs the handler of that
  verb on that token, whatever follows the token after more white space. The lines
  \<open>cd\<close>, \<open>exit\<close>, \<open>ls\<close> and \<open>pwd\<close> alone run \<open>do_cd\<close> on the empty string, end the
  loop, run \<open>do_ls\<close> on \<open>.\<close> and run \<open>do_pwd\<close>; \<open>pwd\<close> or \<open>exit\<close> followed by white space
  and more is reported as not found. A line that does not begin with the characters of
  any verb runs no handler.
\<close>

theorem main_dispatch_follows_patterns:
  assumes "blank ws" and "token a" and "tail_ok rest"
  shows "main_dispatch k (''cd'' @ ws @ a @ rest) s
           = Some (drop_result (do_cd k a (s\<lparr>filename := a\<rparr>)))
    \<and> main_dispatch k (''cat'' @ ws @ a @ rest) s
           = map_option drop_result (do_cat k a (s\<lparr>filename := a\<rparr>))
    \<and> main_dispatch k (''stat'' @ ws @ a @ rest) s
           = Some (drop_result (do_stat k a (s\<lparr>filename := a\<rparr>)))
    \<and> main_dispatch k (''mkdir'' @ ws @ a @ rest) s
           = Some (drop_result (do_mkdir k a (s\<lparr>filename := a\<rparr>)))
    \<and> main_dispatch k (''rmdir'' @ ws @ a @ rest) s
           = Some (drop_result (do_rmdir k a (s\<lparr>filename := a\<rparr>)))
    \<and> main_dispatch k (''rm'' @ ws @ a @ rest) s
           = Some (drop_result (do_rm k a (s\<lparr>filename := a\<rparr>)))
    \<and> main_dispatch k (''ls'' @ ws @ a @ rest) s
           = map_option drop_result (do_ls k a (s\<lparr>filename := a\<rparr>))
    \<and> main_dispatch k ''cd'' s = Some (drop_result (do_cd k [] (s\<lparr>filename := []\<rparr>)))
    \<and> main_dispatch k ''exit'' s = Some (Exited EXIT_SUCCESS (s\<lparr>filename := []\<rparr>))
    \<and> main_dispatch k ''ls'' s
           = map_option drop_result (do_ls k ''.'' (s\<lparr>filename := ''.''\<rparr>))
    \<and> main_dispatch k ''pwd'' s = Some (drop_result (do_pwd k (s\<lparr>filename := []\<rparr>)))
    \<and> main_dispatch k (''pwd'' @ ws @ a @ rest) s
           = Some (unknown_command (''pwd'' @ ws @ a @ rest) s)
    \<and> main_dispatch k (''exit'' @ ws @ a @ rest) s
           = Some (unknown_command (''exit'' @ ws @ a @ rest) s)
    \<and> (list_all (\<lambda>v. \<not> starts_with v line) verbs
          \<longrightarrow> main_dispatch k line s = Some (unknown_command line s))"
  using main_dispatch_cd_arg[OF assms] main_dispatch_cat_arg[OF assms]
    main_dispatch_stat_arg[OF assms] main_dispatch_mkdir_arg[OF assms]
    main_dispatch_rmdir_arg[OF assms] main_dispatch_rm_arg[OF assms]
    main_dispatch_ls_arg[OF assms] main_dispatch_exact[of k s]
    main_dispatch_pwd_arg[OF assms(1)] main_dispatch_exit_arg[OF assms(1)]
    main_dispatch_unknown[of line k s]
  by blast

theorem main_dispatch_follows_patterns_witness:
  "main_dispatch scripted ''rm  f g'' (start [])
     = Some (drop_result (do_rm scripted ''f'' ((start [])\<lparr>filename := ''f''\<rparr>)))
   \<and> main_dispatch scripted ''ls  f g'' (start [])
     = map_option drop_result (do_ls scripted ''f'' ((start [])\<lparr>filename := ''f''\<rparr>))
   \<and> main_dispatch scripted ''pwd  f g'' (start []) = Some (unknown_command ''pwd  f g'' (start []))
   \<and> main_dispatch scripted ''foo'' (start []) = Some (unknown_command ''foo'' (start []))"
proof -
  have h: "blank ''  ''" "token ''f''" "tail_ok '' g''"
    "list_all (\<lambda>v. \<not> starts_with v ''foo'') verbs"
    by (simp_all add: blank_def token_def tail_ok_def isspace_def NUL_def verbs_def
        starts_with_def)
  show ?thesis
    using main_dispatch_follows_patterns[OF h(1,2,3), of scripted "start []" "''foo''"] h(4)
    by simp
qed

section \<open>Only do_cd calls chdir\<close>

text \<open>
  C9. The working directory of the process changes only through \<open>chdir\<close>. Whatever the
  line, whatever the system answers, \<open>execute_command\<close> adds to the calls made so far
  no \<open>chdir\<close>; neither does any of \<open>do_ls\<close>, \<open>do_cat\<close>, \<open>do_mkdir\<close>, \<open>do_rmdir\<close>,
  \<open>do_rm\<close>, \<open>do_pwd\<close>, \<open>do_stat\<close> on any argument, nor \<open>display_prompt\<close>. In \<open>main\<close> a
  \<open>chdir\<close> can only come from the branch that calls \<open>do_cd\<close>.
\<close>

theorem only_do_cd_calls_chdir:
  "(execute_command k line s = Some r \<longrightarrow> no_chdir (trace s) (trace (state_of r)))
   \<and> (do_ls k a s = Some r \<longrightarrow> no_chdir (trace s) (trace (state_of r)))
   \<and> (do_cat k a s = Some r \<longrightarrow> no_chdir (trace s) (trace (state_of r)))
   \<and> no_chdir (trace s) (trace (state_of (do_mkdir k a s)))
   \<and> no_chdir (trace s) (trace (state_of (do_rmdir k a s)))
   \<and> no_chdir (trace s) (trace (state_of (do_rm k a s)))
   \<and> no_chdir (trace s) (trace (state_of (do_pwd k s)))
   \<and> no_chdir (trace s) (trace (state_of (do_stat k a s)))
   \<and> no_chdir (trace s) (trace (display_prompt k s))
   \<and> (main_dispatch k line s = Some st \<longrightarrow> fst (sscanf line ''cd %s'') \<noteq> 1 \<longrightarrow> line \<noteq> ''cd''
        \<longrightarrow> no_chdir (trace s) (trace (proc_of st)))"
proof (intro conjI impI)
  show "no_chdir (trace s) (trace (state_of r))" if "execute_command k line s = Some r"
    using execute_command_calm[OF that] by (simp add: calm_def)
  show "no_chdir (trace s) (trace (state_of r))" if "do_ls k a s = Some r"
    using do_ls_reported[OF that] by (simp add: reported_def calm_def)
  show "no_chdir (trace s) (trace (state_of r))" if "do_cat k a s = Some r"
    using do_cat_reported[OF that] by (simp add: reported_def calm_def)
  show "no_chdir (trace s) (trace (state_of (do_mkdir k a s)))"
    using do_mkdir_reported[of s k a] by (simp add: reported_def calm_def)
  show "no_chdir (trace s) (trace (state_of (do_rmdir k a s)))"
    using do_rmdir_reported[of s k a] by (simp add: reported_def calm_def)
  show "no_chdir (trace s) (trace (state_of (do_rm k a s)))"
    using do_rm_reported[of s k a] by (simp add: reported_def calm_def)
  show "no_chdir (trace s) (trace (state_of (do_pwd k s)))"
    using do_pwd_reported[of s k] by (simp add: reported_def calm_def)
  show "no_chdir (trace s) (trace (state_of (do_stat k a s)))"
    using do_stat_reported[of s k a] by (simp add: reported_def calm_def)
  show "no_chdir (trace s) (trace (display_prompt k s))"
    using display_prompt_calm[of s k] by (simp add: calm_def)
  show "no_chdir (trace s) (trace (proc_of st))"
    if m: "main_dispatch k line s = Some st" and n: "fst (sscanf line ''cd %s'') \<noteq> 1"
      and l: "line \<noteq> ''cd''"
  proof -
    define s1 where "s1 = snd (sscanf_filename line ''cd %s'' (s\<lparr>filename := []\<rparr>))"
    have t: "trace s1 = trace s"
      by (simp add: s1_def)
    have f: "fst (sscanf_filename line ''cd %s'' (s\<lparr>filename := []\<rparr>)) \<noteq> 1"
      using n by (simp add: sscanf_filename_miss)
    have c: "strncmp line ''cd'' BUFFER_SIZE \<noteq> 0"
      using l strncmp_exact[of "''cd''" BUFFER_SIZE line] by (simp add: BUFFER_SIZE_def)
    have "st = Exited EXIT_SUCCESS s1 \<or> (\<exists>r. execute_command k line s1 = Some r \<and> st = drop_result r)"
      using m f c by (auto simp: main_dispatch_def case_prod_beta s1_def split: if_splits)
    then show ?thesis
    proof
      assume "st = Exited EXIT_SUCCESS s1"
      then show ?thesis using t by simp
    next
      assume "\<exists>r. execute_command k line s1 = Some r \<and> st = drop_result r"
      then obtain r where r: "execute_command k line s1 = Some r" "st = drop_result r"
        by blast
      have "proc_of (drop_result r) = state_of r"
        by (cases r) simp_all
      then show ?thesis
        using execute_command_calm[OF r(1)] r(2) t by (simp add: calm_def)
    qed
  qed
qed

theorem only_do_cd_calls_chdir_witness:
  "execute_command scripted ''mkdir x'' (start [Done (Inr ())])
     = Some (Ret (Some 0) ((start [])\<lparr>filename := ''x'', trace := [Mkdir ''x'' MKDIR_MODE]\<rparr>))
   \<and> no_chdir [] [Mkdir ''x'' MKDIR_MODE]
   \<and> fst (sscanf ''mkdir x'' ''cd %s'') = 0"
proof -
  let ?s = "start [Done (Inr ())]"
  let ?r = "Ret (Some 0) ((start [])\<lparr>filename := ''x'', trace := [Mkdir ''x'' MKDIR_MODE]\<rparr>)"
  have e: "execute_command scripted ''mkdir x'' ?s = Some ?r"
    by (simp add: execute_command_def sscanf_filename_def sscanf_def isspace_def do_mkdir_def
        run_defs)
  have n: "fst (sscanf ''mkdir x'' ''cd %s'') = 0"
    by (simp add: sscanf_def isspace_def)
  from only_do_cd_calls_chdir[of scripted "''mkdir x''" ?s ?r] e
  have "no_chdir (trace ?s) (trace (state_of ?r))"
    by blast
  then show ?thesis
    using e n by (simp add: start_def)
qed

section \<open>The loop and what ends it\<close>

text \<open>
  No value that a handler returns ends the loop. A run that ends with an exit status
  ends with \<open>EXIT_SUCCESS\<close>, in a pass that read a line which, stripped, is \<open>exit\<close>, and
  all passes before it left the loop running. A pass on a line that is neither \<open>exit\<close>
  nor matched by the tests for \<open>cd\<close> is the outcome of \<open>execute_command\<close> with its value
  dropped: running when the command returned. A handler that returns \<open>-1\<close> has written
  to one of the streams.
\<close>

lemma main_dispatch_drops_result:
  assumes "fst (sscanf line ''cd %s'') \<noteq> 1" and "line \<noteq> ''cd''" and "line \<noteq> ''exit''"
  shows "main_dispatch k line s
         = map_option drop_result (execute_command k line (s\<lparr>filename := []\<rparr>))"
proof -
  have "strncmp line ''cd'' BUFFER_SIZE \<noteq> 0" "strncmp line ''exit'' BUFFER_SIZE \<noteq> 0"
    using assms(2,3) strncmp_exact[of "''cd''" BUFFER_SIZE line]
      strncmp_exact[of "''exit''" BUFFER_SIZE line]
    by (simp_all add: BUFFER_SIZE_def)
  then show ?thesis
    using assms(1) by (simp add: main_dispatch_def sscanf_filename_miss)
qed

lemma main_loop_exit_status:
  "(main_loop k inputs s = Some (Exited c s') \<longrightarrow>
      c = EXIT_SUCCESS \<and>
      (\<exists>pre line post s0. inputs = pre @ Some line # post
         \<and> main_loop k pre s = Some (Running s0)
         \<and> exit_command line (buffer (display_prompt k s0))))
   \<and> (main_dispatch k line s = Some (Exited c s') \<longrightarrow> c = EXIT_SUCCESS \<and> line = ''exit'')
   \<and> (execute_command k line s = Some r \<longrightarrow> value_of r = Inr (Some (- 1)) \<longrightarrow>
        strnlen line BUFFER_SIZE \<noteq> 0 \<longrightarrow> written s < written (state_of r))
   \<and> (value_of (do_cd k a s) = Inr (Some (- 1)) \<longrightarrow> written s < written (state_of (do_cd k a s)))
   \<and> main_dispatch k ''exit'' s = Some (Exited EXIT_SUCCESS (s\<lparr>filename := []\<rparr>))"
  using main_loop_exited[of k inputs s c s'] main_dispatch_exited[of k line s c s']
    execute_command_written[of k line s r] do_cd_written[of k a s] main_dispatch_exact(2)[of k s]
  by blast

text \<open>
  C8 (the code departs from the claim). The loop is left without the exit command. On
  the inputs \<open>cat f\<close>, \<open>exit\<close>, with \<open>f\<close> a file of one byte, the pass for \<open>cat f\<close> ends
  in the read past the end of \<open>buffer\<close> that \<open>fwrite\<close> makes in \<open>do_cat\<close>: the run is over
  before \<open>exit\<close> is read and has no exit status. On the inputs \<open>cd\<close>, \<open>exit\<close>, for a user
  without a password entry, the pass for \<open>cd\<close> ends in the null dereference of \<open>do_cd\<close>.
  A handler that fails does not end the loop: on a blank line, \<open>rm nofile\<close> and \<open>exit\<close>,
  the failure of \<open>unlink\<close> is reported on the error stream, the next line is read and the
  run ends with \<open>EXIT_SUCCESS\<close>.
\<close>

theorem main_loop_left_without_exit:
  "map_option (\<lambda>st. (crash_of st, exit_status st))
     (main_loop scripted [Some (''cat f'' @ NL), Some (''exit'' @ NL)]
        (start [Path (Inr ''/''), Fd (Inr 3), Bytes (Inr ''a''), Bytes (Inr []), Done (Inr ()),
                Done (Inl EBADF), Path (Inr ''/'')]))
   = Some (Some (Out_of_bounds 256), None)
   \<and> map_option (\<lambda>st. (crash_of st, exit_status st))
       (main_loop scripted [Some (''cd'' @ NL), Some (''exit'' @ NL)]
          (start [Path (Inr ''/''), Pw None, Path (Inr ''/'')]))
     = Some (Some Null_dereference, None)
   \<and> map_option (\<lambda>st. (crash_of st, exit_status st, stderr (proc_of st)))
       (main_loop scripted [Some NL, Some (''rm nofile'' @ NL), Some (''exit'' @ NL)]
          (start [Path (Inr ''/''), Path (Inr ''/''), Done (Inl ENOENT), Path (Inr ''/'')]))
     = Some (None, Some EXIT_SUCCESS,
         ''Error removing file nofile No such file or directory'' @ NL)"
proof (intro conjI)
  note pass_defs = main_iteration_def main_dispatch_def display_prompt_def
    strip_trailing_whitespace_def fgets_def strnlen_def c_str_def clear_line_def
    sscanf_filename_def sscanf_def strncmp_def isspace_def NL_def NUL_def BUFFER_SIZE_def
    MAX_PATH_LENGTH_def EOF_def run_defs
  show "map_option (\<lambda>st. (crash_of st, exit_status st))
     (main_loop scripted [Some (''cat f'' @ NL), Some (''exit'' @ NL)]
        (start [Path (Inr ''/''), Fd (Inr 3), Bytes (Inr ''a''), Bytes (Inr []), Done (Inr ()),
                Done (Inl EBADF), Path (Inr ''/'')]))
   = Some (Some (Out_of_bounds 256), None)"
    apply (simp add: pass_defs execute_command_def do_cat_def)
    apply (subst do_cat_loop.simps)
    apply (simp add: run_defs fwrite_def BUFFER_SIZE_def NUL_def)
    done
  show "map_option (\<lambda>st. (crash_of st, exit_status st))
       (main_loop scripted [Some (''cd'' @ NL), Some (''exit'' @ NL)]
          (start [Path (Inr ''/''), Pw None, Path (Inr ''/'')]))
     = Some (Some Null_dereference, None)"
    by (simp add: pass_defs do_cd_def)
  show "map_option (\<lambda>st. (crash_of st, exit_status st, stderr (proc_of st)))
       (main_loop scripted [Some NL, Some (''rm nofile'' @ NL), Some (''exit'' @ NL)]
          (start [Path (Inr ''/''), Path (Inr ''/''), Done (Inl ENOENT), Path (Inr ''/'')]))
     = Some (None, Some EXIT_SUCCESS,
         ''Error removing file nofile No such file or directory'' @ NL)"
    by (simp add: pass_defs execute_command_def do_rm_def)
qed

end
